theory Spec2Isabelle
  imports Complex_Main "HOL-Library.AList"
begin

section \<open>Values of the host language\<close>

text \<open>
  The analysis code is Python over NumPy scalars. Exceptions are values of \<open>py_error\<close>
  and a fallible computation returns \<open>py_error + 'a\<close>. Calls of \<open>warnings.warn\<close> are
  collected as a list of messages next to the result.
\<close>

datatype py_error =
    IndexError
  | ZeroDivisionError
  | TypeError
  | QiskitError string
  | OtherError string

text \<open>
  A double is modelled as a real number extended by the two infinities and NaN. The
  operations defined here are exact: every finite operation is the operation on the
  reals. The rounding of doubles is added to them in the section on doubles with rounding
  below. The special values are kept because the
  source reaches them on ordinary inputs (the mean of no trials, a division by a zero
  trial count, the root of a negative number) and because every comparison with NaN is
  false.
\<close>

datatype float64 = Fin real | PInf | NInf | NaN

fun fneg :: "float64 \<Rightarrow> float64" where
  "fneg (Fin x) = Fin (- x)"
| "fneg PInf = NInf"
| "fneg NInf = PInf"
| "fneg NaN = NaN"

fun fadd :: "float64 \<Rightarrow> float64 \<Rightarrow> float64" where
  "fadd (Fin x) (Fin y) = Fin (x + y)"
| "fadd NaN _ = NaN"
| "fadd _ NaN = NaN"
| "fadd PInf NInf = NaN"
| "fadd NInf PInf = NaN"
| "fadd PInf _ = PInf"
| "fadd _ PInf = PInf"
| "fadd NInf _ = NInf"
| "fadd _ NInf = NInf"

definition fsub :: "float64 \<Rightarrow> float64 \<Rightarrow> float64" where
  "fsub a b = fadd a (fneg b)"

fun fmul :: "float64 \<Rightarrow> float64 \<Rightarrow> float64" where
  "fmul (Fin x) (Fin y) = Fin (x * y)"
| "fmul NaN _ = NaN"
| "fmul _ NaN = NaN"
| "fmul PInf (Fin y) = (if y = 0 then NaN else if 0 < y then PInf else NInf)"
| "fmul NInf (Fin y) = (if y = 0 then NaN else if 0 < y then NInf else PInf)"
| "fmul (Fin x) PInf = (if x = 0 then NaN else if 0 < x then PInf else NInf)"
| "fmul (Fin x) NInf = (if x = 0 then NaN else if 0 < x then NInf else PInf)"
| "fmul PInf PInf = PInf"
| "fmul PInf NInf = NInf"
| "fmul NInf PInf = NInf"
| "fmul NInf NInf = PInf"

text \<open>
  Division of NumPy scalars: a zero divisor gives an infinity or NaN (and a runtime
  warning), never an exception.
\<close>

fun fdiv :: "float64 \<Rightarrow> float64 \<Rightarrow> float64" where
  "fdiv (Fin x) (Fin y) =
     (if y = 0 then (if x = 0 then NaN else if 0 < x then PInf else NInf)
      else Fin (x / y))"
| "fdiv NaN _ = NaN"
| "fdiv _ NaN = NaN"
| "fdiv (Fin x) PInf = Fin 0"
| "fdiv (Fin x) NInf = Fin 0"
| "fdiv PInf (Fin y) = (if 0 \<le> y then PInf else NInf)"
| "fdiv NInf (Fin y) = (if 0 \<le> y then NInf else PInf)"
| "fdiv PInf PInf = NaN"
| "fdiv PInf NInf = NaN"
| "fdiv NInf PInf = NaN"
| "fdiv NInf NInf = NaN"

text \<open>
  Division of plain Python floats raises on a zero divisor. It is the stricter of the
  two divisions and is used where the source guards the divisor.
\<close>

definition py_truediv :: "float64 \<Rightarrow> float64 \<Rightarrow> py_error + float64" where
  "py_truediv a b = (if b = Fin 0 then Inl ZeroDivisionError else Inr (fdiv a b))"

text \<open>\<open>x ** 0.5\<close>: NaN below zero, and the C library's \<open>pow\<close> maps both infinities to \<open>+inf\<close>.\<close>

fun fpow_half :: "float64 \<Rightarrow> float64" where
  "fpow_half (Fin x) = (if x < 0 then NaN else Fin (sqrt x))"
| "fpow_half PInf = PInf"
| "fpow_half NInf = PInf"
| "fpow_half NaN = NaN"

fun fgt :: "float64 \<Rightarrow> float64 \<Rightarrow> bool" where
  "fgt (Fin x) (Fin y) = (y < x)"
| "fgt NaN _ = False"
| "fgt _ NaN = False"
| "fgt PInf PInf = False"
| "fgt PInf _ = True"
| "fgt NInf _ = False"
| "fgt (Fin x) PInf = False"
| "fgt (Fin x) NInf = True"

fun feq :: "float64 \<Rightarrow> float64 \<Rightarrow> bool" where
  "feq NaN _ = False"
| "feq _ NaN = False"
| "feq a b = (a = b)"

text \<open>
  \<open>math.erf\<close> belongs to the host's standard library. It enters the model as a
  parameter \<open>erf\<close> on the reals, extended to the special values as the library does.
\<close>

fun ferf :: "(real \<Rightarrow> real) \<Rightarrow> float64 \<Rightarrow> float64" where
  "ferf erf (Fin x) = Fin (erf x)"
| "ferf erf PInf = Fin 1"
| "ferf erf NInf = Fin (- 1)"
| "ferf erf NaN = NaN"

text \<open>\<open>np.mean\<close> of a list: the sum over the count; of the empty list, \<open>0.0 / 0\<close>.\<close>

definition np_mean :: "float64 list \<Rightarrow> float64" where
  "np_mean xs = fdiv (foldl fadd (Fin 0) xs) (Fin (real (length xs)))"

text \<open>
  \<open>np.median\<close>: the middle element of the sorted values, or the mean of the two middle
  elements for an even count; NaN for no values.
\<close>

definition np_median :: "real list \<Rightarrow> float64" where
  "np_median xs =
     (let s = sort xs; n = length xs in
      if n = 0 then NaN
      else if even n then Fin ((s ! (n div 2 - 1) + s ! (n div 2)) / 2)
      else Fin (s ! (n div 2)))"

text \<open>
  A Python number that is an \<open>int\<close> or a \<open>float\<close>: \<open>2 ** depth\<close> is an \<open>int\<close> for a
  non-negative \<open>int\<close> exponent and a \<open>float\<close> for a negative one.
\<close>

datatype py_number = PyInt int | PyFloat real

definition py_pow2 :: "int \<Rightarrow> py_number" where
  "py_pow2 e = (if 0 \<le> e then PyInt (2 ^ nat e) else PyFloat (1 / 2 ^ nat (- e)))"


section \<open>Quantum volume analysis\<close>

subsection \<open>Data\<close>

text \<open>
  A trial is one entry of \<open>experiment_data.data()\<close>: the measured \<open>counts\<close> (a dict from
  bit string to occurrence count, a natural number, kept as an association list in
  insertion order) and the \<open>metadata\<close> with the ideal probabilities (real numbers: the
  source takes the real part of every entry) and the depth of the circuit.
\<close>

record trial_metadata =
  ideal_probabilities :: "real list"
  md_depth :: int

record data_trial =
  counts :: "(string \<times> nat) list"
  metadata :: trial_metadata

record qv_experiment_data =
  num_qubits :: int
  data :: "data_trial list"

text \<open>
  The dict returned by \<open>_calc_quantum_volume\<close>; the field \<open>qv_x\<close> is the entry under the
  key \<open>x\<close> (\<open>qv_quantum_volume\<close> under \<open>quantum volume\<close>, \<open>qv_success\<close> under \<open>qv success\<close>).
\<close>

record qv_result =
  qv_quantum_volume :: py_number
  qv_success :: bool
  qv_confidence :: float64
  qv_heavy_output_probability :: "float64 list"
  qv_mean_hop :: float64
  qv_sigma :: float64
  qv_depth :: int
  qv_trials :: int

text \<open>
  What \<open>_run_analysis\<close> returns, after its docstring: the results are a single record or
  a list of records, the figures are absent, a single figure or a list of figures.
\<close>

datatype 'r analysis_results = SingleResult 'r | ResultList "'r list"

datatype 'f figures = NoFigures | SingleFigure 'f | FigureList "'f list"

subsection \<open>Heavy outputs of the ideal distribution\<close>

text \<open>\<open>bin_digits b\<close> is \<open>bin(b)[2:]\<close>, the binary digits of \<open>b\<close> without leading zeros.\<close>

fun bin_digits :: "nat \<Rightarrow> string" where
  "bin_digits b =
     (if b < 2 then [if b = 0 then CHR ''0'' else CHR ''1'']
      else bin_digits (b div 2) @ [if b mod 2 = 0 then CHR ''0'' else CHR ''1''])"

declare bin_digits.simps [simp del]

text \<open>
  \<open>format_spec.format(b)\<close> with \<open>format_spec = "{0:0%db}" % depth\<close>: the binary digits,
  filled with zeros on the left up to the width \<open>depth\<close>; never truncated.
\<close>

definition format_b :: "nat \<Rightarrow> nat \<Rightarrow> string" where
  "format_b width b =
     replicate (width - length (bin_digits b)) (CHR ''0'') @ bin_digits b"

text \<open>
  The dict comprehension over \<open>range(2 ** depth)\<close>: entries are stored in index order, and
  storing under a key that is already present replaces its value in place.
\<close>

definition all_output_prob_ideal :: "real list \<Rightarrow> nat \<Rightarrow> (string \<times> real) list" where
  "all_output_prob_ideal probabilities_vector depth =
     foldl (\<lambda>d b. AList.update (format_b depth b) (probabilities_vector ! b) d)
       [] [0..<2 ^ depth]"

text \<open>
  \<open>range(2 ** depth)\<close> raises a \<open>TypeError\<close> for a negative depth (the power is a
  float), and \<open>probabilities_vector[b]\<close> raises an \<open>IndexError\<close> when the vector is
  shorter than \<open>2 ** depth\<close>. The median is taken over the whole vector. The lookup in
  the filter is over the dict's own keys, so it always finds its key.
\<close>

definition calc_ideal_heavy_output :: "real list \<Rightarrow> int \<Rightarrow> py_error + string list" where
  "calc_ideal_heavy_output probabilities_vector depth =
     (if depth < 0 then Inl TypeError
      else if length probabilities_vector < 2 ^ nat depth then Inl IndexError
      else
        let all_output = all_output_prob_ideal probabilities_vector (nat depth);
            median_probabilities = np_median probabilities_vector
        in Inr (filter
                  (\<lambda>x. case map_of all_output x of
                          None \<Rightarrow> False
                        | Some p \<Rightarrow> fgt (Fin p) median_probabilities)
                  (map fst all_output)))"

text \<open>
  The number a bit string denotes, most significant bit first: the index of an outcome.
\<close>

definition bit_of :: "char \<Rightarrow> nat" where
  "bit_of c = (if c = CHR ''1'' then 1 else 0)"

definition bin_val :: "string \<Rightarrow> nat" where
  "bin_val s = foldl (\<lambda>acc c. 2 * acc + bit_of c) 0 s"

subsection \<open>Measured heavy-output probability\<close>

text \<open>\<open>d.get(k, 0)\<close> on a dict of counts.\<close>

definition dict_get :: "('k \<times> nat) list \<Rightarrow> 'k \<Rightarrow> nat" where
  "dict_get d k = (case map_of d k of None \<Rightarrow> 0 | Some v \<Rightarrow> v)"

text \<open>Both sums are over Python ints, so the quotient is a division of ints: it raises on zero.\<close>

definition calc_exp_heavy_output_probability ::
  "data_trial \<Rightarrow> string list \<Rightarrow> py_error + real" where
  "calc_exp_heavy_output_probability data_trial heavy_outputs =
     (let circ_shots = sum_list (map snd (counts data_trial));
          heavy_output_counts = sum_list (map (dict_get (counts data_trial)) heavy_outputs)
      in if circ_shots = 0 then Inl ZeroDivisionError
         else Inr (real heavy_output_counts / real circ_shots))"

subsection \<open>The estimator\<close>

definition sigma_warning :: string where
  "sigma_warning = ''Standard deviation sigma should not be zero.''"

definition trials_warning :: string where
  "trials_warning = ''Must use at least 100 trials to consider Quantum Volume as successful.''"

definition calc_z_value :: "float64 \<Rightarrow> float64 \<Rightarrow> (py_error + float64) \<times> string list" where
  "calc_z_value mean sigma =
     (let (sigma1, warned) =
            (if feq sigma (Fin 0) then (Fin (1 / 10 ^ 10), [sigma_warning]) else (sigma, []))
      in (py_truediv (fsub mean (Fin (2 / 3))) sigma1, warned))"

definition calc_confidence_level :: "(real \<Rightarrow> real) \<Rightarrow> float64 \<Rightarrow> float64" where
  "calc_confidence_level erf z_value =
     fmul (Fin (1 / 2)) (fadd (Fin 1) (ferf erf (fdiv z_value (Fin (sqrt 2)))))"

definition calc_quantum_volume ::
  "(real \<Rightarrow> real) \<Rightarrow> float64 list \<Rightarrow> int \<Rightarrow> int \<Rightarrow> (py_error + qv_result) \<times> string list" where
  "calc_quantum_volume erf heavy_output_prob_exp depth trials =
     (let mean_hop = np_mean heavy_output_prob_exp;
          sigma_hop = fpow_half (fmul mean_hop (fdiv (fsub (Fin 1) mean_hop) (Fin (of_int trials))));
          z = Fin 2;
          threshold = fadd (Fin (2 / 3)) (fmul z sigma_hop);
          (z_result, warned) = calc_z_value mean_hop sigma_hop
      in case z_result of
           Inl e \<Rightarrow> (Inl e, warned)
         | Inr z_value \<Rightarrow>
             let confidence_level = calc_confidence_level erf z_value;
                 warned1 = warned @ (if trials < 100 then [trials_warning] else []);
                 (quantum_volume, success) =
                   (if fgt mean_hop threshold \<and> 100 \<le> trials then (py_pow2 depth, True)
                    else (PyInt 1, False))
             in (Inr \<lparr> qv_quantum_volume = quantum_volume,
                       qv_success = success,
                       qv_confidence = confidence_level,
                       qv_heavy_output_probability = heavy_output_prob_exp,
                       qv_mean_hop = mean_hop,
                       qv_sigma = sigma_hop,
                       qv_depth = depth,
                       qv_trials = trials \<rparr>, warned1))"

subsection \<open>The analysis of one experiment\<close>

text \<open>
  The loop over the trials appends one probability for each trial and stops at the first
  exception.
\<close>

fun trial_loop :: "real list \<Rightarrow> data_trial list \<Rightarrow> py_error + real list" where
  "trial_loop heavy_output_prob_exp [] = Inr heavy_output_prob_exp"
| "trial_loop heavy_output_prob_exp (t # ts) =
     (case calc_ideal_heavy_output (ideal_probabilities (metadata t)) (md_depth (metadata t)) of
        Inl e \<Rightarrow> Inl e
      | Inr heavy_output \<Rightarrow>
          (case calc_exp_heavy_output_probability t heavy_output of
             Inl e \<Rightarrow> Inl e
           | Inr p \<Rightarrow> trial_loop (heavy_output_prob_exp @ [p]) ts))"

text \<open>What one pass of the loop body computes for a trial.\<close>

definition trial_hop :: "data_trial \<Rightarrow> py_error + real" where
  "trial_hop t =
     (case calc_ideal_heavy_output (ideal_probabilities (metadata t)) (md_depth (metadata t)) of
        Inl e \<Rightarrow> Inl e
      | Inr heavy_output \<Rightarrow> calc_exp_heavy_output_probability t heavy_output)"

text \<open>
  Plotting is done by matplotlib: \<open>format_plot\<close> stands for \<open>_format_plot\<close> followed by
  \<open>get_figure\<close>, and \<open>has_matplotlib\<close> for the flag \<open>HAS_MATPLOTLIB\<close>.
\<close>

definition qv_run_analysis ::
  "(real \<Rightarrow> real) \<Rightarrow> bool \<Rightarrow> (qv_result \<Rightarrow> py_error + 'f) \<Rightarrow> qv_experiment_data \<Rightarrow> bool
     \<Rightarrow> (py_error + qv_result analysis_results \<times> 'f figures) \<times> string list" where
  "qv_run_analysis erf has_matplotlib format_plot experiment_data plot =
     (let depth = num_qubits experiment_data;
          num_trials = int (length (data experiment_data))
      in case trial_loop [] (data experiment_data) of
           Inl e \<Rightarrow> (Inl e, [])
         | Inr heavy_output_prob_exp \<Rightarrow>
             (case calc_quantum_volume erf (map Fin heavy_output_prob_exp) depth num_trials of
                (Inl e, warned) \<Rightarrow> (Inl e, warned)
              | (Inr analysis_result, warned) \<Rightarrow>
                  if plot \<and> has_matplotlib then
                    (case format_plot analysis_result of
                       Inl e \<Rightarrow> (Inl e, warned)
                     | Inr fig \<Rightarrow> (Inr (ResultList [analysis_result], FigureList [fig]), warned))
                  else (Inr (ResultList [analysis_result], NoFigures), warned)))"


section \<open>Composite analysis\<close>

subsection \<open>Data\<close>

text \<open>
  \<open>component_data\<close> is the data container of one sub-experiment: its type label, its
  identifier, the physical qubits of its experiment (\<open>expdata.experiment.physical_qubits\<close>)
  and whatever analyses have stored in it.
\<close>

record 'r component_data =
  experiment_type :: string
  experiment_id :: string
  physical_qubits :: "nat list"
  stored_results :: "'r list"

text \<open>
  A sub-experiment is used through its method \<open>run_analysis(expdata, **options)\<close> only.
  The method belongs to the framework and to the sub-experiment's own analysis class; it
  is a parameter here: it may raise (\<open>Some e\<close>), and it returns the container as the call
  leaves it.
\<close>

record ('o, 'r) sub_experiment =
  run_analysis :: "'o \<Rightarrow> 'r component_data \<Rightarrow> py_error option \<times> 'r component_data"

text \<open>
  The composite experiment \<open>comp_exp\<close> with its declared number of sub-experiments and
  the accessor \<open>component_experiment(i)\<close>.
\<close>

record ('o, 'r) composite_experiment =
  num_experiments :: nat
  component_experiment :: "nat \<Rightarrow> ('o, 'r) sub_experiment"

text \<open>
  The argument of the analysis is composite experiment data or some other experiment
  data; the \<open>isinstance\<close> test tells them apart.
\<close>

datatype ('o, 'r) experiment_data =
    ExperimentData "'r component_data"
  | CompositeExperimentData "('o, 'r) composite_experiment"

text \<open>
  The mutable part: the containers of the sub-experiments, as
  \<open>component_experiment_data(i)\<close> hands them out, and the indices whose analysis has been
  invoked so far, in the order of the calls.
\<close>

record 'r composite_state =
  component_experiment_data :: "nat \<Rightarrow> 'r component_data"
  analysis_calls :: "nat list"

record composite_result =
  experiment_types :: "string list"
  experiment_ids :: "string list"
  experiment_qubits :: "nat list list"

subsection \<open>The analysis\<close>

text \<open>
  The loop over \<open>range(comp_exp.num_experiments)\<close>. An exception of a sub-experiment's
  analysis leaves the loop at once; the state keeps what had happened until then.
\<close>

fun component_loop ::
  "('o, 'r) composite_experiment \<Rightarrow> 'o \<Rightarrow> nat list
     \<Rightarrow> string list \<times> string list \<times> nat list list \<Rightarrow> 'r composite_state
     \<Rightarrow> (py_error + string list \<times> string list \<times> nat list list) \<times> 'r composite_state" where
  "component_loop comp_exp options [] subs st = (Inr subs, st)"
| "component_loop comp_exp options (i # is) (sub_types, sub_ids, sub_qubits) st =
     (let exp = component_experiment comp_exp i;
          expdata = component_experiment_data st i;
          (raised, expdata1) = run_analysis exp options expdata;
          st1 = st \<lparr> component_experiment_data := (component_experiment_data st) (i := expdata1),
                     analysis_calls := analysis_calls st @ [i] \<rparr>
      in case raised of
           Some e \<Rightarrow> (Inl e, st1)
         | None \<Rightarrow>
             component_loop comp_exp options is
               (sub_types @ [experiment_type expdata1],
                sub_ids @ [experiment_id expdata1],
                sub_qubits @ [physical_qubits expdata1]) st1)"

definition composite_run_analysis ::
  "('o, 'r) experiment_data \<Rightarrow> 'o \<Rightarrow> 'r composite_state
     \<Rightarrow> (py_error + composite_result analysis_results \<times> 'f figures) \<times> 'r composite_state" where
  "composite_run_analysis experiment_data options st =
     (case experiment_data of
        ExperimentData _ \<Rightarrow>
          (Inl (QiskitError ''CompositeAnalysis must be run on CompositeExperimentData.''), st)
      | CompositeExperimentData comp_exp \<Rightarrow>
          (case component_loop comp_exp options [0..<num_experiments comp_exp] ([], [], []) st of
             (Inl e, st1) \<Rightarrow> (Inl e, st1)
           | (Inr (sub_types, sub_ids, sub_qubits), st1) \<Rightarrow>
               (Inr (ResultList [\<lparr> experiment_types = sub_types,
                                    experiment_ids = sub_ids,
                                    experiment_qubits = sub_qubits \<rparr>], NoFigures), st1)))"

text \<open>
  For the sub-experiment \<open>i\<close> in the state \<open>st\<close>: the container as its analysis leaves it, and
  the exception its analysis raises, if any.
\<close>

definition analysed :: "('o, 'r) composite_experiment \<Rightarrow> 'o \<Rightarrow> 'r composite_state \<Rightarrow> nat
    \<Rightarrow> 'r component_data" where
  "analysed comp_exp options st i =
     snd (run_analysis (component_experiment comp_exp i) options (component_experiment_data st i))"

definition raised :: "('o, 'r) composite_experiment \<Rightarrow> 'o \<Rightarrow> 'r composite_state \<Rightarrow> nat
    \<Rightarrow> py_error option" where
  "raised comp_exp options st i =
     fst (run_analysis (component_experiment comp_exp i) options (component_experiment_data st i))"

section \<open>Doubles with rounding\<close>

text \<open>
  The functions above compute with exact reals. Where a claim depends on the doubles the
  program really computes (the comparison of the mean with the threshold, the comparison
  of a probability with the median), the same source functions are embedded once more
  with every rounding made explicit. The arithmetic is a parameter:
  \<^item> \<open>fp_round\<close> maps the exact result of an operation on finite doubles, the value of a
    decimal literal or of an \<open>int\<close>, to the double that the operation returns (sum,
    difference, product and quotient are correctly rounded; the result may be an infinity);
  \<^item> \<open>fp_pow_half\<close> is \<open>x ** 0.5\<close> on a finite \<open>x \<ge> 0\<close>, the C library's \<open>pow\<close>;
  \<^item> \<open>fp_mean\<close> is \<open>np.mean\<close> on a list of doubles (NumPy sums in blocks and pairs; the
    order is its own);
  \<^item> \<open>fp_erf\<close> is \<open>math.erf\<close>.
  Infinities and NaN behave as before. The sign of a zero is not modelled: no divisor of
  the source can be a negative zero and no comparison sees the sign.
\<close>

record fpu =
  fp_round :: "real \<Rightarrow> float64"
  fp_pow_half :: "real \<Rightarrow> float64"
  fp_mean :: "float64 list \<Rightarrow> float64"
  fp_erf :: "real \<Rightarrow> real"

text \<open>
  The operations on doubles: on two finite operands the rounded exact result, otherwise
  as for the exact operations; a quotient by zero is an infinity or NaN.
\<close>

definition fadd_r :: "(real \<Rightarrow> float64) \<Rightarrow> float64 \<Rightarrow> float64 \<Rightarrow> float64" where
  "fadd_r rnd a b = (case (a, b) of (Fin x, Fin y) \<Rightarrow> rnd (x + y) | _ \<Rightarrow> fadd a b)"

definition fsub_r :: "(real \<Rightarrow> float64) \<Rightarrow> float64 \<Rightarrow> float64 \<Rightarrow> float64" where
  "fsub_r rnd a b = (case (a, b) of (Fin x, Fin y) \<Rightarrow> rnd (x - y) | _ \<Rightarrow> fsub a b)"

definition fmul_r :: "(real \<Rightarrow> float64) \<Rightarrow> float64 \<Rightarrow> float64 \<Rightarrow> float64" where
  "fmul_r rnd a b = (case (a, b) of (Fin x, Fin y) \<Rightarrow> rnd (x * y) | _ \<Rightarrow> fmul a b)"

definition fdiv_r :: "(real \<Rightarrow> float64) \<Rightarrow> float64 \<Rightarrow> float64 \<Rightarrow> float64" where
  "fdiv_r rnd a b =
     (case (a, b) of
        (Fin x, Fin y) \<Rightarrow> if y = 0 then fdiv a b else rnd (x / y)
      | _ \<Rightarrow> fdiv a b)"

definition fpow_half_r :: "(real \<Rightarrow> float64) \<Rightarrow> float64 \<Rightarrow> float64" where
  "fpow_half_r pow a = (case a of Fin x \<Rightarrow> if x < 0 then NaN else pow x | _ \<Rightarrow> fpow_half a)"

text \<open>
  \<open>np.median\<close> on doubles: for an even count NumPy takes the mean of the two middle
  values, that is their rounded sum divided by 2 and rounded; for an odd count the middle
  value itself.
\<close>

definition np_median_r :: "(real \<Rightarrow> float64) \<Rightarrow> real list \<Rightarrow> float64" where
  "np_median_r rnd xs =
     (let s = sort xs; n = length xs in
      if n = 0 then NaN
      else if even n then
        fdiv_r rnd (fadd_r rnd (Fin (s ! (n div 2 - 1))) (Fin (s ! (n div 2)))) (Fin 2)
      else Fin (s ! (n div 2)))"

text \<open>\<open>_calc_ideal_heavy_output\<close> with the median of doubles; everything else is as above.\<close>

definition calc_ideal_heavy_output_r ::
  "(real \<Rightarrow> float64) \<Rightarrow> real list \<Rightarrow> int \<Rightarrow> py_error + string list" where
  "calc_ideal_heavy_output_r rnd probabilities_vector depth =
     (if depth < 0 then Inl TypeError
      else if length probabilities_vector < 2 ^ nat depth then Inl IndexError
      else
        let all_output = all_output_prob_ideal probabilities_vector (nat depth);
            median_probabilities = np_median_r rnd probabilities_vector
        in Inr (filter
                  (\<lambda>x. case map_of all_output x of
                          None \<Rightarrow> False
                        | Some p \<Rightarrow> fgt (Fin p) median_probabilities)
                  (map fst all_output)))"

text \<open>
  \<open>_calc_z_value\<close> as the estimator calls it, on NumPy scalars: their division does not
  raise. \<open>2 / 3\<close> and \<open>1e-10\<close> are the doubles nearest to these numbers.
\<close>

definition calc_z_value_r :: "fpu \<Rightarrow> float64 \<Rightarrow> float64 \<Rightarrow> float64 \<times> string list" where
  "calc_z_value_r fp mean sigma =
     (let (sigma1, warned) =
            (if feq sigma (Fin 0) then (fp_round fp (1 / 10 ^ 10), [sigma_warning])
             else (sigma, []))
      in (fdiv_r (fp_round fp) (fsub_r (fp_round fp) mean (fp_round fp (2 / 3))) sigma1, warned))"

text \<open>\<open>_calc_confidence_level\<close>; \<open>2 ** 0.5\<close> is a double.\<close>

definition calc_confidence_level_r :: "fpu \<Rightarrow> float64 \<Rightarrow> float64" where
  "calc_confidence_level_r fp z_value =
     fmul_r (fp_round fp) (Fin (1 / 2))
       (fadd_r (fp_round fp) (Fin 1)
          (ferf (fp_erf fp) (fdiv_r (fp_round fp) z_value (fp_pow_half fp 2))))"

text \<open>\<open>_calc_quantum_volume\<close>; \<open>trials\<close> is converted to a double for the division.\<close>

definition calc_quantum_volume_r ::
  "fpu \<Rightarrow> float64 list \<Rightarrow> int \<Rightarrow> int \<Rightarrow> qv_result \<times> string list" where
  "calc_quantum_volume_r fp heavy_output_prob_exp depth trials =
     (let mean_hop = fp_mean fp heavy_output_prob_exp;
          sigma_hop =
            fpow_half_r (fp_pow_half fp)
              (fmul_r (fp_round fp) mean_hop
                 (fdiv_r (fp_round fp) (fsub_r (fp_round fp) (Fin 1) mean_hop)
                    (fp_round fp (of_int trials))));
          z = Fin 2;
          threshold = fadd_r (fp_round fp) (fp_round fp (2 / 3)) (fmul_r (fp_round fp) z sigma_hop);
          (z_value, warned) = calc_z_value_r fp mean_hop sigma_hop;
          confidence_level = calc_confidence_level_r fp z_value;
          warned1 = warned @ (if trials < 100 then [trials_warning] else []);
          (quantum_volume, success) =
            (if fgt mean_hop threshold \<and> 100 \<le> trials then (py_pow2 depth, True)
             else (PyInt 1, False))
      in (\<lparr> qv_quantum_volume = quantum_volume,
             qv_success = success,
             qv_confidence = confidence_level,
             qv_heavy_output_probability = heavy_output_prob_exp,
             qv_mean_hop = mean_hop,
             qv_sigma = sigma_hop,
             qv_depth = depth,
             qv_trials = trials \<rparr>, warned1))"

subsection \<open>Two arithmetics\<close>

text \<open>
  Rounding to the nearest binary64 number, ties to the even mantissa: \<open>e\<close> is the binary
  exponent of \<open>x\<close> (at least -1022, where the subnormal numbers begin), \<open>u\<close> the distance
  of neighbouring doubles at that exponent, and a result of magnitude \<open>2 ^ 1024\<close> or more
  is an infinity.
\<close>

definition rne :: "real \<Rightarrow> int" where
  "rne x =
     (let f = \<lfloor>x\<rfloor> in
      if x - of_int f < 1 / 2 then f
      else if 1 / 2 < x - of_int f then f + 1
      else if even f then f else f + 1)"

definition round64 :: "real \<Rightarrow> float64" where
  "round64 x =
     (if x = 0 then Fin 0
      else
        let e = max \<lfloor>log 2 \<bar>x\<bar>\<rfloor> (- 1022);
            u = 2 powi (e - 52);
            y = of_int (rne (x / u)) * u
        in if 2 powi 1024 \<le> \<bar>y\<bar> then (if 0 < x then PInf else NInf) else Fin y)"

text \<open>
  A mean that adds from left to right and divides by the count, as NumPy does for fewer
  than eight values.
\<close>

definition np_mean_seq :: "(real \<Rightarrow> float64) \<Rightarrow> float64 list \<Rightarrow> float64" where
  "np_mean_seq rnd xs = fdiv_r rnd (foldl (fadd_r rnd) (Fin 0) xs) (rnd (real (length xs)))"

text \<open>
  The arithmetic of binary64 doubles. Its root is the correctly rounded one; the C
  library's \<open>pow\<close> returns it for the values of the examples.
\<close>

definition ieee :: "(real \<Rightarrow> real) \<Rightarrow> fpu" where
  "ieee erf =
     \<lparr> fp_round = round64,
       fp_pow_half = (\<lambda>x. round64 (sqrt x)),
       fp_mean = np_mean_seq round64,
       fp_erf = erf \<rparr>"

text \<open>The arithmetic that rounds nothing: with it the functions are those of the first model.\<close>

definition exact :: "(real \<Rightarrow> real) \<Rightarrow> fpu" where
  "exact erf =
     \<lparr> fp_round = Fin,
       fp_pow_half = (\<lambda>x. Fin (sqrt x)),
       fp_mean = np_mean,
       fp_erf = erf \<rparr>"

section \<open>Example inputs\<close>

text \<open>
  The identity clipped to \<open>[-1, 1]\<close> stands in for \<open>math.erf\<close> where an example needs a
  concrete function: it is monotone, takes its values in \<open>[-1, 1]\<close> and is 1 at \<open>sqrt 2\<close>.
\<close>

abbreviation (input) clipped :: "real \<Rightarrow> real" where
  "clipped \<equiv> (\<lambda>x. max (- 1) (min 1 x))"

text \<open>
  A trial over two qubits whose ten shots all gave \<open>11\<close>, with the depth \<open>k\<close> in its
  metadata. The median of the ideal probabilities is 0.2, so at depth 2 the heavy outputs
  are \<open>10\<close> and \<open>11\<close>.
\<close>

abbreviation (input) two_qubit_trial :: "int \<Rightarrow> data_trial" where
  "two_qubit_trial k \<equiv>
     \<lparr> counts = [(''11'', 10)],
       metadata = \<lparr> ideal_probabilities = [1 / 10, 1 / 10, 3 / 10, 1 / 2], md_depth = k \<rparr> \<rparr>"

text \<open>
  Three sub-experiments of types A, B, C; an analysis that stores one result in the
  container, and one that raises.
\<close>

abbreviation (input) analysis_ok :: "(unit, string) sub_experiment" where
  "analysis_ok \<equiv> \<lparr> run_analysis = (\<lambda>opts d. (None, d \<lparr> stored_results := stored_results d @ [''analysed''] \<rparr>)) \<rparr>"

abbreviation (input) analysis_failing :: "(unit, string) sub_experiment" where
  "analysis_failing \<equiv> \<lparr> run_analysis = (\<lambda>opts d. (Some (OtherError ''analysis failed''), d)) \<rparr>"

abbreviation (input) three_children :: "nat \<Rightarrow> string component_data" where
  "three_children \<equiv> (\<lambda>i.
     if i = 0 then \<lparr> experiment_type = ''A'', experiment_id = ''id1'', physical_qubits = [0], stored_results = [] \<rparr>
     else if i = 1 then \<lparr> experiment_type = ''B'', experiment_id = ''id2'', physical_qubits = [1], stored_results = [] \<rparr>
     else \<lparr> experiment_type = ''C'', experiment_id = ''id3'', physical_qubits = [2, 3], stored_results = [] \<rparr>)"

abbreviation (input) three_state :: "string composite_state" where
  "three_state \<equiv> \<lparr> component_experiment_data = three_children, analysis_calls = [] \<rparr>"

section \<open>Properties of the estimator\<close>

subsection \<open>The estimator in closed form\<close>

lemma feq_zero_iff: "feq s (Fin 0) \<longleftrightarrow> s = Fin 0"
  by (cases s) auto

lemma calc_z_value_eq:
  "calc_z_value mean sigma =
     (if sigma = Fin 0 then (Inr (fdiv (fsub mean (Fin (2 / 3))) (Fin (1 / 10 ^ 10))), [sigma_warning])
      else (Inr (fdiv (fsub mean (Fin (2 / 3))) sigma), []))"
  by (simp add: calc_z_value_def feq_zero_iff py_truediv_def)

lemma calc_quantum_volume_eq:
  "calc_quantum_volume erf hops d n =
    (let m = np_mean hops;
         s = fpow_half (fmul m (fdiv (fsub (Fin 1) m) (Fin (of_int n))));
         ok = (fgt m (fadd (Fin (2 / 3)) (fmul (Fin 2) s)) \<and> 100 \<le> n)
     in (Inr \<lparr> qv_quantum_volume = (if ok then py_pow2 d else PyInt 1),
               qv_success = ok,
               qv_confidence = calc_confidence_level erf
                  (fdiv (fsub m (Fin (2 / 3))) (if s = Fin 0 then Fin (1 / 10 ^ 10) else s)),
               qv_heavy_output_probability = hops,
               qv_mean_hop = m,
               qv_sigma = s,
               qv_depth = d,
               qv_trials = n \<rparr>,
         (if s = Fin 0 then [sigma_warning] else []) @ (if n < 100 then [trials_warning] else [])))"
  by (simp add: calc_quantum_volume_def calc_z_value_eq Let_def)




subsection \<open>Auxiliary facts\<close>

lemma foldl_fadd_replicate: "foldl fadd (Fin a) (replicate k (Fin c)) = Fin (a + real k * c)"
  by (induction k arbitrary: a) (simp_all add: algebra_simps)

lemma np_mean_replicate: "0 < k \<Longrightarrow> np_mean (replicate k (Fin c)) = Fin c"
  by (simp add: np_mean_def foldl_fadd_replicate)





subsection \<open>Confidence of a success\<close>




section \<open>Properties of the estimator over doubles\<close>

subsection \<open>The first model is the model over doubles without rounding\<close>

lemma fadd_r_exact [simp]: "fadd_r Fin = fadd"
  by (intro ext) (simp add: fadd_r_def split: float64.splits)

lemma fsub_r_exact [simp]: "fsub_r Fin = fsub"
  by (intro ext) (simp add: fsub_r_def fsub_def split: float64.splits)

lemma fmul_r_exact [simp]: "fmul_r Fin = fmul"
  by (intro ext) (simp add: fmul_r_def split: float64.splits)

lemma fdiv_r_exact [simp]: "fdiv_r Fin = fdiv"
  by (intro ext) (simp add: fdiv_r_def split: float64.splits)

lemma fpow_half_r_exact [simp]: "fpow_half_r (\<lambda>x. Fin (sqrt x)) = fpow_half"
  by (intro ext) (simp add: fpow_half_r_def split: float64.splits)

lemma np_median_r_exact: "np_median_r Fin = np_median"
  by (intro ext) (simp add: np_median_r_def np_median_def Let_def)

lemma calc_ideal_heavy_output_r_exact: "calc_ideal_heavy_output_r Fin = calc_ideal_heavy_output"
  by (intro ext) (simp add: calc_ideal_heavy_output_r_def calc_ideal_heavy_output_def np_median_r_exact)

lemma calc_quantum_volume_r_exact:
  "calc_quantum_volume erf hops d n =
     (Inr (fst (calc_quantum_volume_r (exact erf) hops d n)),
      snd (calc_quantum_volume_r (exact erf) hops d n))"
  by (simp add: calc_quantum_volume_eq calc_quantum_volume_r_def calc_z_value_r_def
      calc_confidence_level_r_def calc_confidence_level_def exact_def feq_zero_iff Let_def)

subsection \<open>The estimator in closed form\<close>

lemma calc_z_value_r_eq:
  "calc_z_value_r fp mean sigma =
     (fdiv_r (fp_round fp) (fsub_r (fp_round fp) mean (fp_round fp (2 / 3)))
        (if sigma = Fin 0 then fp_round fp (1 / 10 ^ 10) else sigma),
      if sigma = Fin 0 then [sigma_warning] else [])"
  by (simp add: calc_z_value_r_def feq_zero_iff)

lemma calc_quantum_volume_r_eq:
  "calc_quantum_volume_r fp hops d n =
    (let m = fp_mean fp hops;
         s = fpow_half_r (fp_pow_half fp)
               (fmul_r (fp_round fp) m
                  (fdiv_r (fp_round fp) (fsub_r (fp_round fp) (Fin 1) m) (fp_round fp (of_int n))));
         ok = (fgt m (fadd_r (fp_round fp) (fp_round fp (2 / 3)) (fmul_r (fp_round fp) (Fin 2) s))
               \<and> 100 \<le> n)
     in (\<lparr> qv_quantum_volume = (if ok then py_pow2 d else PyInt 1),
           qv_success = ok,
           qv_confidence = calc_confidence_level_r fp (fst (calc_z_value_r fp m s)),
           qv_heavy_output_probability = hops,
           qv_mean_hop = m,
           qv_sigma = s,
           qv_depth = d,
           qv_trials = n \<rparr>,
         (if s = Fin 0 then [sigma_warning] else []) @ (if n < 100 then [trials_warning] else [])))"
  by (simp add: calc_quantum_volume_r_def calc_z_value_r_eq Let_def)

text \<open>
  Claim C1. For every arithmetic of doubles, all per-trial probabilities, every depth and
  every trial count the estimator returns a record; its success flag holds exactly when
  the mean exceeds the double \<open>2/3 + 2 * sigma\<close> and there are at least 100 trials, where
  \<open>sigma\<close> is the double \<open>(mean * ((1 - mean) / trials)) ** 0.5\<close>; both are computed with the
  program's rounded operations. The quantum volume is \<open>2 ** depth\<close> on success and 1
  otherwise. With 50 trials there is never success and the quantum volume is 1, whatever
  the mean and the threshold are.
\<close>

theorem estimator_success_gate:
  "(\<exists>r w. calc_quantum_volume_r fp hops d n = (r, w)
      \<and> qv_mean_hop r = fp_mean fp hops
      \<and> qv_sigma r =
          fpow_half_r (fp_pow_half fp)
            (fmul_r (fp_round fp) (qv_mean_hop r)
               (fdiv_r (fp_round fp) (fsub_r (fp_round fp) (Fin 1) (qv_mean_hop r))
                  (fp_round fp (of_int n))))
      \<and> qv_success r =
          (fgt (qv_mean_hop r)
             (fadd_r (fp_round fp) (fp_round fp (2 / 3)) (fmul_r (fp_round fp) (Fin 2) (qv_sigma r)))
           \<and> 100 \<le> n)
      \<and> qv_quantum_volume r = (if qv_success r then py_pow2 d else PyInt 1))
   \<and> (\<exists>r w. calc_quantum_volume_r fp hops d 50 = (r, w)
      \<and> qv_success r = False \<and> qv_quantum_volume r = PyInt 1)"
  by (simp add: calc_quantum_volume_r_eq Let_def)

subsection \<open>Rounding to binary64\<close>

lemma floor_log2:
  assumes "2 powi e \<le> x" and "x < 2 powi (e + 1)"
  shows "\<lfloor>log 2 x\<rfloor> = e"
proof (rule floor_unique)
  have pos: "0 < x" using assms(1) by (smt (verit) zero_less_power_int zero_less_numeral)
  have p: "2 powr (of_int k) = (2::real) powi k" for k
    by (simp add: powr_real_of_int power_int_def inverse_eq_divide power_divide)
  show "of_int e \<le> log 2 x"
    using assms(1) pos by (simp add: le_log_iff p)
  have "log 2 x < of_int (e + 1)"
    using assms(2) pos by (simp add: log_less_iff p del: of_int_add)
  then show "log 2 x < of_int e + 1" by simp
qed

lemma round64_eval:
  assumes "m \<le> 1074" and "2 ^ 52 / 2 ^ m \<le> \<bar>x\<bar>" and "\<bar>x\<bar> < 2 ^ 53 / 2 ^ m"
    and "rne (x * 2 ^ m) = k" and "\<bar>k\<bar> \<le> 2 ^ 53"
  shows "round64 x = Fin (of_int k / 2 ^ m)"
proof -
  define e where "e = 52 - int m"
  have u: "(2::real) powi (e - 52) = 1 / 2 ^ m"
    by (simp add: e_def power_int_minus_divide)
  have lo: "(2::real) powi e = 2 ^ 52 / 2 ^ m"
    unfolding e_def by (simp add: power_int_diff)
  have hi: "(2::real) powi (e + 1) = 2 ^ 53 / 2 ^ m"
  proof -
    have "(2::real) powi (e + 1) = 2 powi e * 2" by (simp add: power_int_add)
    then show ?thesis by (simp add: lo)
  qed
  have "\<lfloor>log 2 \<bar>x\<bar>\<rfloor> = e"
    using assms(2,3) by (intro floor_log2) (simp_all add: lo hi)
  moreover have "- 1022 \<le> e" using assms(1) by (simp add: e_def)
  ultimately have e: "max \<lfloor>log 2 \<bar>x\<bar>\<rfloor> (- 1022) = e" by simp
  have x0: "x \<noteq> 0" using assms(2) by (smt (verit) divide_pos_pos zero_less_power zero_less_numeral abs_zero)
  have "\<bar>of_int k / 2 ^ m :: real\<bar> \<le> 2 ^ 53 / 2 ^ m"
  proof -
    have "\<bar>of_int k :: real\<bar> \<le> 2 ^ 53" using assms(5) by (metis of_int_abs of_int_le_numeral_power_cancel_iff)
    then show ?thesis by (simp add: abs_divide divide_right_mono)
  qed
  also have "\<dots> \<le> 2 ^ 53"
    by (simp add: divide_le_eq)
  also have "\<dots> < (2::real) powi 1024" by simp
  finally have small: "\<not> 2 powi 1024 \<le> \<bar>of_int k / 2 ^ m :: real\<bar>" by simp
  show ?thesis
    using x0 small assms(4) by (simp add: round64_def e u Let_def)
qed

lemma rne_unique: "of_int k - 1 / 2 < t \<Longrightarrow> t < of_int k + 1 / 2 \<Longrightarrow> rne t = k"
proof -
  assume a: "of_int k - 1 / 2 < t" "t < of_int k + 1 / 2"
  show ?thesis
  proof (cases "t < of_int k")
    case True
    with a have "\<lfloor>t\<rfloor> = k - 1" by (intro floor_unique) auto
    with a show ?thesis by (simp add: rne_def)
  next
    case False
    with a have "\<lfloor>t\<rfloor> = k" by (intro floor_unique) auto
    with a show ?thesis by (simp add: rne_def)
  qed
qed

lemma round64_sqrt_eval:
  assumes "m \<le> 1074" and "0 < k" and "k \<le> 2 ^ 53"
    and "(2 ^ 52 / 2 ^ m)\<^sup>2 \<le> x" and "x < (2 ^ 53 / 2 ^ m)\<^sup>2"
    and "((of_int k - 1 / 2) / 2 ^ m)\<^sup>2 < x" and "x < ((of_int k + 1 / 2) / 2 ^ m)\<^sup>2"
  shows "round64 (sqrt x) = Fin (of_int k / 2 ^ m)"
proof (rule round64_eval)
  show "m \<le> 1074" by fact
  have x: "0 \<le> x" using assms(4) by (smt (verit) zero_le_power2)
  have "2 ^ 52 / 2 ^ m \<le> sqrt x"
    using assms(4) by (intro real_le_rsqrt)
  then show "2 ^ 52 / 2 ^ m \<le> \<bar>sqrt x\<bar>" by simp
  have "sqrt x < 2 ^ 53 / 2 ^ m"
    using assms(5) by (intro real_less_lsqrt) simp_all
  then show "\<bar>sqrt x\<bar> < 2 ^ 53 / 2 ^ m" using x by simp
  have k: "0 \<le> (of_int k - 1 / 2) / (2 ^ m :: real)"
    using assms(2) by simp
  have lo: "(of_int k - 1 / 2) / 2 ^ m < sqrt x"
    using assms(6) by (intro real_less_rsqrt)
  have hi: "sqrt x < (of_int k + 1 / 2) / 2 ^ m"
    using assms(7,2) by (intro real_less_lsqrt) simp_all
  show "rne (sqrt x * 2 ^ m) = k"
    using lo hi by (intro rne_unique) (simp_all add: field_simps)
  show "\<bar>k\<bar> \<le> 2 ^ 53" using assms(2,3) by simp
qed

subsection \<open>The estimator at three inputs\<close>

lemma dbl_r1: "round64 (838743941446829 / 2 ^ 50) = Fin (838743941446829 / 2 ^ 50)"
  using round64_eval[where x = "838743941446829 / 2 ^ 50" and m = 53 and k = 6709951531574632]
  by (simp add: rne_def)

lemma dbl_r2: "round64 (1) = Fin (1)"
  using round64_eval[where x = "1" and m = 52 and k = 4503599627370496]
  by (simp add: rne_def)

lemma dbl_r3: "round64 (1 - 838743941446829 / 2 ^ 50) = Fin (287155965395795 / 2 ^ 50)"
  using round64_eval[where x = "1 - 838743941446829 / 2 ^ 50" and m = 54 and k = 4594495446332720]
  by (simp add: rne_def)

lemma dbl_r4: "round64 (124) = Fin (124)"
  using round64_eval[where x = "124" and m = 46 and k = 8725724278030336]
  by (simp add: rne_def)

lemma dbl_r5: "round64 ((287155965395795 / 2 ^ 50) / 124) = Fin (2371352488429791 / 2 ^ 60)"
  using round64_eval[where x = "(287155965395795 / 2 ^ 50) / 124" and m = 61 and k = 4742704976859582]
  by (simp add: rne_def)

lemma dbl_r6: "round64 ((838743941446829 / 2 ^ 50) * (2371352488429791 / 2 ^ 60)) = Fin (1766549158248897 / 2 ^ 60)"
  using round64_eval[where x = "(838743941446829 / 2 ^ 50) * (2371352488429791 / 2 ^ 60)" and m = 62 and k = 7066196632995588]
  by (simp add: rne_def)

lemma dbl_r7: "round64 (sqrt (1766549158248897 / 2 ^ 60)) = Fin (5641216227311765 / 2 ^ 57)"
  using round64_sqrt_eval[where x = "1766549158248897 / 2 ^ 60" and m = 57 and k = 5641216227311765]
  by (simp add: power2_eq_square)

lemma dbl_r8: "round64 (2 / 3) = Fin (6004799503160661 / 2 ^ 53)"
  using round64_eval[where x = "2 / 3" and m = 53 and k = 6004799503160661]
  by (simp add: rne_def)

lemma dbl_r9: "round64 (2 * (5641216227311765 / 2 ^ 57)) = Fin (5641216227311765 / 2 ^ 56)"
  using round64_eval[where x = "2 * (5641216227311765 / 2 ^ 57)" and m = 56 and k = 5641216227311765]
  by (simp add: rne_def)

lemma dbl_r10: "round64 (6004799503160661 / 2 ^ 53 + 5641216227311765 / 2 ^ 56) = Fin (838743941446829 / 2 ^ 50)"
  using round64_eval[where x = "6004799503160661 / 2 ^ 53 + 5641216227311765 / 2 ^ 56" and m = 53 and k = 6709951531574632]
  by (simp add: rne_def)

lemma dbl_r11: "round64 (3602879701896397 / 2 ^ 52) = Fin (3602879701896397 / 2 ^ 52)"
  using round64_eval[where x = "3602879701896397 / 2 ^ 52" and m = 53 and k = 7205759403792794]
  by (simp add: rne_def)

lemma dbl_r12: "round64 (1 - 3602879701896397 / 2 ^ 52) = Fin (900719925474099 / 2 ^ 52)"
  using round64_eval[where x = "1 - 3602879701896397 / 2 ^ 52" and m = 55 and k = 7205759403792792]
  by (simp add: rne_def)

lemma dbl_r13: "round64 (150) = Fin (150)"
  using round64_eval[where x = "150" and m = 45 and k = 5277655813324800]
  by (simp add: rne_def)

lemma dbl_r14: "round64 ((900719925474099 / 2 ^ 52) / 150) = Fin (1537228672809129 / 2 ^ 60)"
  using round64_eval[where x = "(900719925474099 / 2 ^ 52) / 150" and m = 62 and k = 6148914691236516]
  by (simp add: rne_def)

lemma dbl_r15: "round64 ((3602879701896397 / 2 ^ 52) * (1537228672809129 / 2 ^ 60)) = Fin (4919131752989213 / 2 ^ 62)"
  using round64_eval[where x = "(3602879701896397 / 2 ^ 52) * (1537228672809129 / 2 ^ 60)" and m = 62 and k = 4919131752989213]
  by (simp add: rne_def)

lemma dbl_r16: "round64 (sqrt (4919131752989213 / 2 ^ 62)) = Fin (1176695583236925 / 2 ^ 55)"
  using round64_sqrt_eval[where x = "4919131752989213 / 2 ^ 62" and m = 57 and k = 4706782332947700]
  by (simp add: power2_eq_square)

lemma dbl_r17: "round64 (2 * (1176695583236925 / 2 ^ 55)) = Fin (1176695583236925 / 2 ^ 54)"
  using round64_eval[where x = "2 * (1176695583236925 / 2 ^ 55)" and m = 56 and k = 4706782332947700]
  by (simp add: rne_def)

lemma dbl_r18: "round64 (6004799503160661 / 2 ^ 53 + 1176695583236925 / 2 ^ 54) = Fin (1648286823694781 / 2 ^ 51)"
  using round64_eval[where x = "6004799503160661 / 2 ^ 53 + 1176695583236925 / 2 ^ 54" and m = 53 and k = 6593147294779124]
  by (simp add: rne_def)

lemma dbl_r19: "round64 (50) = Fin (50)"
  using round64_eval[where x = "50" and m = 47 and k = 7036874417766400]
  by (simp add: rne_def)

lemma dbl_r20: "round64 ((900719925474099 / 2 ^ 52) / 50) = Fin (4611686018427387 / 2 ^ 60)"
  using round64_eval[where x = "(900719925474099 / 2 ^ 52) / 50" and m = 60 and k = 4611686018427387]
  by (simp add: rne_def)

lemma dbl_r21: "round64 ((3602879701896397 / 2 ^ 52) * (4611686018427387 / 2 ^ 60)) = Fin (1844674407370955 / 2 ^ 59)"
  using round64_eval[where x = "(3602879701896397 / 2 ^ 52) * (4611686018427387 / 2 ^ 60)" and m = 61 and k = 7378697629483820]
  by (simp add: rne_def)

lemma dbl_r22: "round64 (sqrt (1844674407370955 / 2 ^ 59)) = Fin (8152386140832989 / 2 ^ 57)"
  using round64_sqrt_eval[where x = "1844674407370955 / 2 ^ 59" and m = 57 and k = 8152386140832989]
  by (simp add: power2_eq_square)

lemma dbl_r23: "round64 (2 * (8152386140832989 / 2 ^ 57)) = Fin (8152386140832989 / 2 ^ 56)"
  using round64_eval[where x = "2 * (8152386140832989 / 2 ^ 57)" and m = 56 and k = 8152386140832989]
  by (simp add: rne_def)

lemma dbl_r24: "round64 (6004799503160661 / 2 ^ 53 + 8152386140832989 / 2 ^ 56) = Fin (7023847770764785 / 2 ^ 53)"
  using round64_eval[where x = "6004799503160661 / 2 ^ 53 + 8152386140832989 / 2 ^ 56" and m = 53 and k = 7023847770764785]
  by (simp add: rne_def)

lemma boundary_mean: "fp_mean (ieee erf) [Fin (838743941446829 / 2 ^ 50)] = Fin (838743941446829 / 2 ^ 50)"
  using dbl_r1 dbl_r2
  by (simp add: ieee_def np_mean_seq_def fadd_r_def fdiv_r_def)

lemma boundary_sigma:
  "fpow_half_r (fp_pow_half (ieee erf))
     (fmul_r (fp_round (ieee erf)) (Fin (838743941446829 / 2 ^ 50))
        (fdiv_r (fp_round (ieee erf)) (fsub_r (fp_round (ieee erf)) (Fin 1) (Fin (838743941446829 / 2 ^ 50)))
           (fp_round (ieee erf) (of_int 124))))
   = Fin (5641216227311765 / 2 ^ 57)"
proof -
  have "fsub_r round64 (Fin 1) (Fin (838743941446829 / 2 ^ 50)) = Fin (287155965395795 / 2 ^ 50)"
    using dbl_r3 by (simp add: fsub_r_def)
  moreover have "fdiv_r round64 (Fin (287155965395795 / 2 ^ 50)) (Fin 124) = Fin (2371352488429791 / 2 ^ 60)"
    using dbl_r5 by (simp add: fdiv_r_def)
  moreover have "fmul_r round64 (Fin (838743941446829 / 2 ^ 50)) (Fin (2371352488429791 / 2 ^ 60)) = Fin (1766549158248897 / 2 ^ 60)"
    using dbl_r6 by (simp add: fmul_r_def)
  moreover have "fpow_half_r (\<lambda>x. round64 (sqrt x)) (Fin (1766549158248897 / 2 ^ 60)) = Fin (5641216227311765 / 2 ^ 57)"
    using dbl_r7 by (simp add: fpow_half_r_def)
  ultimately show ?thesis
    using dbl_r4 by (simp add: ieee_def)
qed

lemma boundary_threshold:
  "fadd_r (fp_round (ieee erf)) (fp_round (ieee erf) (2 / 3))
     (fmul_r (fp_round (ieee erf)) (Fin 2) (Fin (5641216227311765 / 2 ^ 57)))
   = Fin (838743941446829 / 2 ^ 50)"
proof -
  have "fmul_r round64 (Fin 2) (Fin (5641216227311765 / 2 ^ 57)) = Fin (5641216227311765 / 2 ^ 56)"
    using dbl_r9 by (simp add: fmul_r_def)
  moreover have "fadd_r round64 (Fin (6004799503160661 / 2 ^ 53)) (Fin (5641216227311765 / 2 ^ 56)) = Fin (838743941446829 / 2 ^ 50)"
    using dbl_r10 by (simp add: fadd_r_def)
  ultimately show ?thesis
    using dbl_r8 by (simp add: ieee_def)
qed

lemma pass_150_mean: "fp_mean (ieee erf) [Fin (3602879701896397 / 2 ^ 52)] = Fin (3602879701896397 / 2 ^ 52)"
  using dbl_r11 dbl_r2
  by (simp add: ieee_def np_mean_seq_def fadd_r_def fdiv_r_def)

lemma pass_150_sigma:
  "fpow_half_r (fp_pow_half (ieee erf))
     (fmul_r (fp_round (ieee erf)) (Fin (3602879701896397 / 2 ^ 52))
        (fdiv_r (fp_round (ieee erf)) (fsub_r (fp_round (ieee erf)) (Fin 1) (Fin (3602879701896397 / 2 ^ 52)))
           (fp_round (ieee erf) (of_int 150))))
   = Fin (1176695583236925 / 2 ^ 55)"
proof -
  have "fsub_r round64 (Fin 1) (Fin (3602879701896397 / 2 ^ 52)) = Fin (900719925474099 / 2 ^ 52)"
    using dbl_r12 by (simp add: fsub_r_def)
  moreover have "fdiv_r round64 (Fin (900719925474099 / 2 ^ 52)) (Fin 150) = Fin (1537228672809129 / 2 ^ 60)"
    using dbl_r14 by (simp add: fdiv_r_def)
  moreover have "fmul_r round64 (Fin (3602879701896397 / 2 ^ 52)) (Fin (1537228672809129 / 2 ^ 60)) = Fin (4919131752989213 / 2 ^ 62)"
    using dbl_r15 by (simp add: fmul_r_def)
  moreover have "fpow_half_r (\<lambda>x. round64 (sqrt x)) (Fin (4919131752989213 / 2 ^ 62)) = Fin (1176695583236925 / 2 ^ 55)"
    using dbl_r16 by (simp add: fpow_half_r_def)
  ultimately show ?thesis
    using dbl_r13 by (simp add: ieee_def)
qed

lemma pass_150_threshold:
  "fadd_r (fp_round (ieee erf)) (fp_round (ieee erf) (2 / 3))
     (fmul_r (fp_round (ieee erf)) (Fin 2) (Fin (1176695583236925 / 2 ^ 55)))
   = Fin (1648286823694781 / 2 ^ 51)"
proof -
  have "fmul_r round64 (Fin 2) (Fin (1176695583236925 / 2 ^ 55)) = Fin (1176695583236925 / 2 ^ 54)"
    using dbl_r17 by (simp add: fmul_r_def)
  moreover have "fadd_r round64 (Fin (6004799503160661 / 2 ^ 53)) (Fin (1176695583236925 / 2 ^ 54)) = Fin (1648286823694781 / 2 ^ 51)"
    using dbl_r18 by (simp add: fadd_r_def)
  ultimately show ?thesis
    using dbl_r8 by (simp add: ieee_def)
qed

lemma few_50_mean: "fp_mean (ieee erf) [Fin (3602879701896397 / 2 ^ 52)] = Fin (3602879701896397 / 2 ^ 52)"
  using dbl_r11 dbl_r2
  by (simp add: ieee_def np_mean_seq_def fadd_r_def fdiv_r_def)

lemma few_50_sigma:
  "fpow_half_r (fp_pow_half (ieee erf))
     (fmul_r (fp_round (ieee erf)) (Fin (3602879701896397 / 2 ^ 52))
        (fdiv_r (fp_round (ieee erf)) (fsub_r (fp_round (ieee erf)) (Fin 1) (Fin (3602879701896397 / 2 ^ 52)))
           (fp_round (ieee erf) (of_int 50))))
   = Fin (8152386140832989 / 2 ^ 57)"
proof -
  have "fsub_r round64 (Fin 1) (Fin (3602879701896397 / 2 ^ 52)) = Fin (900719925474099 / 2 ^ 52)"
    using dbl_r12 by (simp add: fsub_r_def)
  moreover have "fdiv_r round64 (Fin (900719925474099 / 2 ^ 52)) (Fin 50) = Fin (4611686018427387 / 2 ^ 60)"
    using dbl_r20 by (simp add: fdiv_r_def)
  moreover have "fmul_r round64 (Fin (3602879701896397 / 2 ^ 52)) (Fin (4611686018427387 / 2 ^ 60)) = Fin (1844674407370955 / 2 ^ 59)"
    using dbl_r21 by (simp add: fmul_r_def)
  moreover have "fpow_half_r (\<lambda>x. round64 (sqrt x)) (Fin (1844674407370955 / 2 ^ 59)) = Fin (8152386140832989 / 2 ^ 57)"
    using dbl_r22 by (simp add: fpow_half_r_def)
  ultimately show ?thesis
    using dbl_r19 by (simp add: ieee_def)
qed

lemma few_50_threshold:
  "fadd_r (fp_round (ieee erf)) (fp_round (ieee erf) (2 / 3))
     (fmul_r (fp_round (ieee erf)) (Fin 2) (Fin (8152386140832989 / 2 ^ 57)))
   = Fin (7023847770764785 / 2 ^ 53)"
proof -
  have "fmul_r round64 (Fin 2) (Fin (8152386140832989 / 2 ^ 57)) = Fin (8152386140832989 / 2 ^ 56)"
    using dbl_r23 by (simp add: fmul_r_def)
  moreover have "fadd_r round64 (Fin (6004799503160661 / 2 ^ 53)) (Fin (8152386140832989 / 2 ^ 56)) = Fin (7023847770764785 / 2 ^ 53)"
    using dbl_r24 by (simp add: fadd_r_def)
  ultimately show ?thesis
    using dbl_r8 by (simp add: ieee_def)
qed

text \<open>
  The estimator over doubles. One trial of probability 0.744954268447299 with 124
  trials: the exact sum \<open>2/3 + 2 * sigma\<close> lies below the mean, but it rounds to the mean
  itself, so the comparison fails and there is no success. One trial of probability 0.8
  (the double nearest to it): success with quantum volume 4 for 150 trials; for 50 trials
  the mean exceeds the threshold and there is no success.
\<close>

theorem estimator_success_gate_witness:
  "(\<exists>r w. calc_quantum_volume_r (ieee clipped) [Fin (838743941446829 / 2 ^ 50)] 2 124 = (r, w)
      \<and> qv_mean_hop r = Fin (838743941446829 / 2 ^ 50)
      \<and> qv_sigma r = Fin (5641216227311765 / 2 ^ 57)
      \<and> 2 / 3 + 2 * (5641216227311765 / 2 ^ 57) < (838743941446829 / 2 ^ 50 :: real)
      \<and> fadd_r round64 (round64 (2 / 3)) (fmul_r round64 (Fin 2) (qv_sigma r)) = Fin (838743941446829 / 2 ^ 50)
      \<and> qv_success r = False \<and> qv_quantum_volume r = PyInt 1)
   \<and> (\<exists>r w. calc_quantum_volume_r (ieee clipped) [Fin (3602879701896397 / 2 ^ 52)] 2 150 = (r, w)
      \<and> qv_success r = True \<and> qv_quantum_volume r = PyInt 4)
   \<and> (\<exists>r w. calc_quantum_volume_r (ieee clipped) [Fin (3602879701896397 / 2 ^ 52)] 2 50 = (r, w)
      \<and> fgt (qv_mean_hop r)
            (fadd_r round64 (round64 (2 / 3)) (fmul_r round64 (Fin 2) (qv_sigma r)))
      \<and> qv_success r = False \<and> qv_quantum_volume r = PyInt 1)"
proof (intro conjI)
  have rnd_eq: "fp_round (ieee clipped) = round64" by (simp add: ieee_def)
  from estimator_success_gate [of "ieee clipped" "[Fin (838743941446829 / 2 ^ 50)]" 2 124]
  obtain r w where r: "calc_quantum_volume_r (ieee clipped) [Fin (838743941446829 / 2 ^ 50)] 2 124 = (r, w)"
    and m: "qv_mean_hop r = fp_mean (ieee clipped) [Fin (838743941446829 / 2 ^ 50)]"
    and s: "qv_sigma r =
          fpow_half_r (fp_pow_half (ieee clipped))
            (fmul_r (fp_round (ieee clipped)) (qv_mean_hop r)
               (fdiv_r (fp_round (ieee clipped)) (fsub_r (fp_round (ieee clipped)) (Fin 1) (qv_mean_hop r))
                  (fp_round (ieee clipped) (of_int 124))))"
    and ok: "qv_success r =
          (fgt (qv_mean_hop r)
             (fadd_r (fp_round (ieee clipped)) (fp_round (ieee clipped) (2 / 3))
                (fmul_r (fp_round (ieee clipped)) (Fin 2) (qv_sigma r)))
           \<and> (100::int) \<le> 124)"
    and qv: "qv_quantum_volume r = (if qv_success r then py_pow2 2 else PyInt 1)"
    by blast
  have m': "qv_mean_hop r = Fin (838743941446829 / 2 ^ 50)"
    unfolding m by (rule boundary_mean)
  have s': "qv_sigma r = Fin (5641216227311765 / 2 ^ 57)"
    unfolding s m' by (rule boundary_sigma)
  have t: "fadd_r (fp_round (ieee clipped)) (fp_round (ieee clipped) (2 / 3))
                (fmul_r (fp_round (ieee clipped)) (Fin 2) (qv_sigma r)) = Fin (838743941446829 / 2 ^ 50)"
    unfolding s' by (rule boundary_threshold)
  have no: "qv_success r = False"
    unfolding ok t m' by simp
  have "2 / 3 + 2 * (5641216227311765 / 2 ^ 57) < (838743941446829 / 2 ^ 50 :: real)" by simp
  with r m' s' t no qv
  show "\<exists>r w. calc_quantum_volume_r (ieee clipped) [Fin (838743941446829 / 2 ^ 50)] 2 124 = (r, w)
      \<and> qv_mean_hop r = Fin (838743941446829 / 2 ^ 50)
      \<and> qv_sigma r = Fin (5641216227311765 / 2 ^ 57)
      \<and> 2 / 3 + 2 * (5641216227311765 / 2 ^ 57) < (838743941446829 / 2 ^ 50 :: real)
      \<and> fadd_r round64 (round64 (2 / 3)) (fmul_r round64 (Fin 2) (qv_sigma r)) = Fin (838743941446829 / 2 ^ 50)
      \<and> qv_success r = False \<and> qv_quantum_volume r = PyInt 1"
    by (auto simp: rnd_eq)
next
  have rnd_eq: "fp_round (ieee clipped) = round64" by (simp add: ieee_def)
  from estimator_success_gate [of "ieee clipped" "[Fin (3602879701896397 / 2 ^ 52)]" 2 150]
  obtain r w where r: "calc_quantum_volume_r (ieee clipped) [Fin (3602879701896397 / 2 ^ 52)] 2 150 = (r, w)"
    and m: "qv_mean_hop r = fp_mean (ieee clipped) [Fin (3602879701896397 / 2 ^ 52)]"
    and s: "qv_sigma r =
          fpow_half_r (fp_pow_half (ieee clipped))
            (fmul_r (fp_round (ieee clipped)) (qv_mean_hop r)
               (fdiv_r (fp_round (ieee clipped)) (fsub_r (fp_round (ieee clipped)) (Fin 1) (qv_mean_hop r))
                  (fp_round (ieee clipped) (of_int 150))))"
    and ok: "qv_success r =
          (fgt (qv_mean_hop r)
             (fadd_r (fp_round (ieee clipped)) (fp_round (ieee clipped) (2 / 3))
                (fmul_r (fp_round (ieee clipped)) (Fin 2) (qv_sigma r)))
           \<and> (100::int) \<le> 150)"
    and qv: "qv_quantum_volume r = (if qv_success r then py_pow2 2 else PyInt 1)"
    by blast
  have m': "qv_mean_hop r = Fin (3602879701896397 / 2 ^ 52)"
    unfolding m by (rule pass_150_mean)
  have s': "qv_sigma r = Fin (1176695583236925 / 2 ^ 55)"
    unfolding s m' by (rule pass_150_sigma)
  have t: "fadd_r (fp_round (ieee clipped)) (fp_round (ieee clipped) (2 / 3))
                (fmul_r (fp_round (ieee clipped)) (Fin 2) (qv_sigma r)) = Fin (1648286823694781 / 2 ^ 51)"
    unfolding s' by (rule pass_150_threshold)
  have yes: "qv_success r = True"
    unfolding ok t m' by simp
  with r qv
  show "\<exists>r w. calc_quantum_volume_r (ieee clipped) [Fin (3602879701896397 / 2 ^ 52)] 2 150 = (r, w)
      \<and> qv_success r = True \<and> qv_quantum_volume r = PyInt 4"
    by (auto simp: py_pow2_def)
next
  have rnd_eq: "fp_round (ieee clipped) = round64" by (simp add: ieee_def)
  from estimator_success_gate [of "ieee clipped" "[Fin (3602879701896397 / 2 ^ 52)]" 2 50]
  obtain r w where r: "calc_quantum_volume_r (ieee clipped) [Fin (3602879701896397 / 2 ^ 52)] 2 50 = (r, w)"
    and m: "qv_mean_hop r = fp_mean (ieee clipped) [Fin (3602879701896397 / 2 ^ 52)]"
    and s: "qv_sigma r =
          fpow_half_r (fp_pow_half (ieee clipped))
            (fmul_r (fp_round (ieee clipped)) (qv_mean_hop r)
               (fdiv_r (fp_round (ieee clipped)) (fsub_r (fp_round (ieee clipped)) (Fin 1) (qv_mean_hop r))
                  (fp_round (ieee clipped) (of_int 50))))"
    and ok: "qv_success r =
          (fgt (qv_mean_hop r)
             (fadd_r (fp_round (ieee clipped)) (fp_round (ieee clipped) (2 / 3))
                (fmul_r (fp_round (ieee clipped)) (Fin 2) (qv_sigma r)))
           \<and> (100::int) \<le> 50)"
    and qv: "qv_quantum_volume r = (if qv_success r then py_pow2 2 else PyInt 1)"
    by blast
  have m': "qv_mean_hop r = Fin (3602879701896397 / 2 ^ 52)"
    unfolding m by (rule few_50_mean)
  have s': "qv_sigma r = Fin (8152386140832989 / 2 ^ 57)"
    unfolding s m' by (rule few_50_sigma)
  have t: "fadd_r (fp_round (ieee clipped)) (fp_round (ieee clipped) (2 / 3))
                (fmul_r (fp_round (ieee clipped)) (Fin 2) (qv_sigma r)) = Fin (7023847770764785 / 2 ^ 53)"
    unfolding s' by (rule few_50_threshold)
  have above: "fgt (qv_mean_hop r)
            (fadd_r round64 (round64 (2 / 3)) (fmul_r round64 (Fin 2) (qv_sigma r)))"
    using t unfolding rnd_eq m' by simp
  have no: "qv_success r = False"
    unfolding ok by simp
  with r qv above
  show "\<exists>r w. calc_quantum_volume_r (ieee clipped) [Fin (3602879701896397 / 2 ^ 52)] 2 50 = (r, w)
      \<and> fgt (qv_mean_hop r)
            (fadd_r round64 (round64 (2 / 3)) (fmul_r round64 (Fin 2) (qv_sigma r)))
      \<and> qv_success r = False \<and> qv_quantum_volume r = PyInt 1"
    by auto
qed

section \<open>Properties of the heavy outputs\<close>

subsection \<open>Formatting an index\<close>

lemma bin_val_Nil [simp]: "bin_val [] = 0"
  by (simp add: bin_val_def)

lemma bin_val_snoc [simp]: "bin_val (s @ [c]) = 2 * bin_val s + bit_of c"
  by (simp add: bin_val_def)

lemma bin_val_zeros [simp]: "bin_val (replicate k (CHR ''0'') @ s) = bin_val s"
proof -
  have "foldl (\<lambda>acc c. 2 * acc + bit_of c) 0 (replicate k (CHR ''0'')) = 0"
    by (induction k) (simp_all add: bit_of_def)
  then show ?thesis by (simp add: bin_val_def)
qed

lemma bin_val_bin_digits: "bin_val (bin_digits b) = b"
proof (induction b rule: bin_digits.induct)
  case (1 b)
  show ?case
  proof (cases "b < 2")
    case True
    then have "b = 0 \<or> b = 1" by auto
    then show ?thesis
      by (auto simp: bin_digits.simps[of b] bin_val_def bit_of_def)
  next
    case False
    with 1 have "bin_val (bin_digits (b div 2)) = b div 2" by simp
    with False show ?thesis
      by (subst bin_digits.simps) (auto simp: bit_of_def; presburger)
  qed
qed

lemma set_bin_digits: "set (bin_digits b) \<subseteq> {CHR ''0'', CHR ''1''}"
proof (induction b rule: bin_digits.induct)
  case (1 b)
  then show ?case
    by (subst bin_digits.simps) auto
qed

lemma length_bin_digits: "0 < w \<Longrightarrow> b < 2 ^ w \<Longrightarrow> length (bin_digits b) \<le> w"
proof (induction b arbitrary: w rule: bin_digits.induct)
  case (1 b)
  show ?case
  proof (cases "b < 2")
    case True
    with 1(2) show ?thesis by (simp add: bin_digits.simps[of b])
  next
    case False
    with 1(3) have "1 < w"
      by (cases "w = 1") (use 1(2) in auto)
    then obtain v where w: "w = Suc v" "0 < v" by (cases w) auto
    with 1(3) have "b div 2 < 2 ^ v" by auto
    with 1(1) False w have "length (bin_digits (b div 2)) \<le> v" by simp
    with False w show ?thesis
      by (subst bin_digits.simps) simp
  qed
qed

lemma bin_val_format_b [simp]: "bin_val (format_b w b) = b"
  by (simp add: format_b_def bin_val_bin_digits)

lemma inj_format_b: "inj (format_b w)"
  by (rule inj_on_inverseI[where g = bin_val]) simp

lemma length_format_b: "0 < w \<Longrightarrow> b < 2 ^ w \<Longrightarrow> length (format_b w b) = w"
  using length_bin_digits[of w b] by (simp add: format_b_def)

lemma set_format_b: "set (format_b w b) \<subseteq> {CHR ''0'', CHR ''1''}"
  using set_bin_digits[of b] by (auto simp: format_b_def)

lemma bin_val_less: "bin_val s < 2 ^ length s"
proof (induction s rule: rev_induct)
  case Nil
  show ?case by simp
next
  case (snoc c s)
  have "bit_of c \<le> 1" by (simp add: bit_of_def)
  with snoc show ?case by simp
qed

lemma bin_val_inj:
  "length s = length t \<Longrightarrow> set s \<subseteq> {CHR ''0'', CHR ''1''} \<Longrightarrow> set t \<subseteq> {CHR ''0'', CHR ''1''}
     \<Longrightarrow> bin_val s = bin_val t \<Longrightarrow> s = t"
proof (induction s arbitrary: t rule: rev_induct)
  case Nil
  then show ?case by simp
next
  case (snoc c s)
  from snoc.prems(1) obtain t' c' where t: "t = t' @ [c']"
    by (cases t rule: rev_cases) auto
  from snoc.prems t have cs: "c \<in> {CHR ''0'', CHR ''1''}" "c' \<in> {CHR ''0'', CHR ''1''}"
    by auto
  from snoc.prems(4) t have eq: "2 * bin_val s + bit_of c = 2 * bin_val t' + bit_of c'"
    by simp
  have b: "bit_of c \<le> 1" "bit_of c' \<le> 1" by (simp_all add: bit_of_def)
  from eq b have "bit_of c = bit_of c'" "bin_val s = bin_val t'" by presburger+
  with cs have "c = c'" by (auto simp: bit_of_def)
  moreover from snoc.IH[of t'] snoc.prems t \<open>bin_val s = bin_val t'\<close> have "s = t'" by simp
  ultimately show ?case using t by simp
qed

lemma format_b_bin_val:
  assumes "set s \<subseteq> {CHR ''0'', CHR ''1''}" and "0 < length s"
  shows "format_b (length s) (bin_val s) = s"
proof (rule bin_val_inj)
  show "length (format_b (length s) (bin_val s)) = length s"
    using assms(2) bin_val_less by (rule length_format_b)
qed (simp_all add: set_format_b assms)

subsection \<open>The dict of ideal probabilities\<close>

lemma update_fresh: "k \<notin> fst ` set d \<Longrightarrow> AList.update k v d = d @ [(k, v)]"
  by (induction d) auto

lemma foldl_update_fresh:
  "distinct (map f bs) \<Longrightarrow> f ` set bs \<inter> fst ` set d = {} \<Longrightarrow>
     foldl (\<lambda>d b. AList.update (f b) (g b) d) d bs = d @ map (\<lambda>b. (f b, g b)) bs"
proof (induction bs arbitrary: d)
  case Nil
  show ?case by simp
next
  case (Cons b bs)
  from Cons.prems have fresh: "f b \<notin> fst ` set d" by auto
  have "f ` set bs \<inter> fst ` set (d @ [(f b, g b)]) = {}"
    using Cons.prems by auto
  with Cons.IH[of "d @ [(f b, g b)]"] Cons.prems(1) fresh show ?case
    by (simp add: update_fresh)
qed

lemma all_output_prob_ideal_eq:
  "all_output_prob_ideal pv w = map (\<lambda>b. (format_b w b, pv ! b)) [0..<2 ^ w]"
proof -
  have "distinct (map (format_b w) [0..<2 ^ w])"
    by (simp add: distinct_map inj_on_subset[OF inj_format_b])
  then show ?thesis
    unfolding all_output_prob_ideal_def by (subst foldl_update_fresh) simp_all
qed

lemma map_of_map_inj:
  "inj f \<Longrightarrow> map_of (map (\<lambda>b. (f b, g b)) bs) (f b) = (if b \<in> set bs then Some (g b) else None)"
  by (induction bs) (auto simp: inj_eq)

lemma calc_ideal_heavy_output_eq:
  assumes "0 \<le> depth" and "2 ^ nat depth \<le> length pv"
  shows "calc_ideal_heavy_output pv depth =
     Inr (map (format_b (nat depth))
            (filter (\<lambda>b. fgt (Fin (pv ! b)) (np_median pv)) [0..<2 ^ nat depth]))"
proof -
  have "filter (\<lambda>x. case map_of (map (\<lambda>b. (format_b w b, pv ! b)) [0..<2 ^ w]) x of
                       None \<Rightarrow> False | Some p \<Rightarrow> fgt (Fin p) m)
          (map (format_b w) [0..<2 ^ w])
        = map (format_b w) (filter (\<lambda>b. fgt (Fin (pv ! b)) m) [0..<2 ^ w])" for w m
  proof -
    have "filter (\<lambda>x. (x < 2 ^ w \<longrightarrow> fgt (Fin (pv ! x)) m) \<and> x < 2 ^ w) [0..<2 ^ w]
          = filter (\<lambda>b. fgt (Fin (pv ! b)) m) [0..<2 ^ w]"
      by (rule filter_cong) auto
    then show ?thesis
      by (simp add: filter_map o_def map_of_map_inj[OF inj_format_b])
  qed
  with assms show ?thesis
    by (simp add: calc_ideal_heavy_output_def all_output_prob_ideal_eq Let_def o_def)
qed

lemma sort_replicate: "sort (replicate k (c::real)) = replicate k c"
  by (induction k) (simp_all add: insort_is_Cons)

subsection \<open>The heavy outputs\<close>

lemma calc_ideal_heavy_output_r_eq:
  assumes "0 \<le> depth" and "2 ^ nat depth \<le> length pv"
  shows "calc_ideal_heavy_output_r rnd pv depth =
     Inr (map (format_b (nat depth))
            (filter (\<lambda>b. fgt (Fin (pv ! b)) (np_median_r rnd pv)) [0..<2 ^ nat depth]))"
proof -
  have "filter (\<lambda>x. case map_of (map (\<lambda>b. (format_b w b, pv ! b)) [0..<2 ^ w]) x of
                       None \<Rightarrow> False | Some p \<Rightarrow> fgt (Fin p) m)
          (map (format_b w) [0..<2 ^ w])
        = map (format_b w) (filter (\<lambda>b. fgt (Fin (pv ! b)) m) [0..<2 ^ w])" for w m
  proof -
    have "filter (\<lambda>x. (x < 2 ^ w \<longrightarrow> fgt (Fin (pv ! x)) m) \<and> x < 2 ^ w) [0..<2 ^ w]
          = filter (\<lambda>b. fgt (Fin (pv ! b)) m) [0..<2 ^ w]"
      by (rule filter_cong) auto
    then show ?thesis
      by (simp add: filter_map o_def map_of_map_inj[OF inj_format_b])
  qed
  with assms show ?thesis
    by (simp add: calc_ideal_heavy_output_r_def all_output_prob_ideal_eq Let_def o_def)
qed

lemma heavy_set_with:
  assumes len: "length pv = 2 ^ w" and single: "w = 0 \<Longrightarrow> med = Fin (pv ! 0)"
  shows "set (map (format_b w) (filter (\<lambda>b. fgt (Fin (pv ! b)) med) [0..<2 ^ w]))
    = {s. length s = w \<and> set s \<subseteq> {CHR ''0'', CHR ''1''}
          \<and> fgt (Fin (pv ! bin_val s)) med}" (is "?L = ?R")
proof (cases "w = 0")
  case True
  with single show ?thesis by auto
next
  case False
  then have w: "0 < w" by simp
  show ?thesis
  proof (intro set_eqI iffI)
    fix s assume "s \<in> ?L"
    then obtain b where b: "s = format_b w b" "b < 2 ^ w" "fgt (Fin (pv ! b)) med"
      by auto
    with w show "s \<in> ?R"
      using set_format_b[of w b] by (simp add: length_format_b)
  next
    fix s assume "s \<in> ?R"
    then have s: "length s = w" "set s \<subseteq> {CHR ''0'', CHR ''1''}"
      "fgt (Fin (pv ! bin_val s)) med"
      by auto
    from s(1) bin_val_less[of s] have less: "bin_val s < 2 ^ w" by simp
    from s(1,2) w format_b_bin_val[of s] have "format_b w (bin_val s) = s" by simp
    with less s(3) show "s \<in> ?L"
      by (auto simp: image_iff intro!: bexI[of _ "bin_val s"])
  qed
qed

lemma np_median_r_single: "np_median_r rnd [x] = Fin x"
  by (simp add: np_median_r_def)

lemma np_median_r_replicate:
  assumes "rnd (c + c) = Fin (c + c)" and "rnd ((c + c) / 2) = Fin c" and "0 < k"
  shows "np_median_r rnd (replicate k c) = Fin c"
  using assms by (simp add: np_median_r_def sort_replicate Let_def fadd_r_def fdiv_r_def)

lemma round64_pow2:
  assumes "k \<le> 1022"
  shows "round64 (1 / 2 ^ k) = Fin (1 / 2 ^ k)"
proof -
  have "round64 (1 / 2 ^ k) = Fin (of_int (2 ^ 52) / 2 ^ (52 + k))"
  proof (rule round64_eval)
    show "52 + k \<le> 1074" using assms by simp
    show "2 ^ 52 / 2 ^ (52 + k) \<le> \<bar>1 / 2 ^ k :: real\<bar>"
      by (simp add: power_add)
    show "\<bar>1 / 2 ^ k :: real\<bar> < 2 ^ 53 / 2 ^ (52 + k)"
      by (simp add: power_add divide_strict_right_mono)
    have "(1 / 2 ^ k :: real) * 2 ^ (52 + k) = of_int (2 ^ 52)"
      by (simp add: power_add)
    then show "rne (1 / 2 ^ k * 2 ^ (52 + k)) = 2 ^ 52"
      by (simp only: rne_def Let_def floor_of_int) simp
    show "\<bar>2 ^ 52 :: int\<bar> \<le> 2 ^ 53" by simp
  qed
  then show ?thesis by (simp add: power_add)
qed

lemma uniform_binary64:
  assumes "0 \<le> depth" and "depth \<le> 1022"
  shows "calc_ideal_heavy_output_r round64 (replicate (2 ^ nat depth) (1 / 2 ^ nat depth)) depth
         = Inr []"
proof (cases "nat depth")
  case 0
  then show ?thesis
    using assms(1) by (simp add: calc_ideal_heavy_output_r_eq np_median_r_single)
next
  case (Suc j)
  have j: "j \<le> 1022" "Suc j \<le> 1022" using Suc assms(2) by linarith+
  have dbl: "(1 / 2 ^ Suc j + 1 / 2 ^ Suc j :: real) = 1 / 2 ^ j" by simp
  have "round64 (1 / 2 ^ Suc j + 1 / 2 ^ Suc j) = Fin (1 / 2 ^ Suc j + 1 / 2 ^ Suc j)"
    unfolding dbl using j(1) by (rule round64_pow2)
  moreover have "round64 ((1 / 2 ^ Suc j + 1 / 2 ^ Suc j) / 2) = Fin (1 / 2 ^ Suc j)"
  proof -
    have "(1 / 2 ^ Suc j + 1 / 2 ^ Suc j :: real) / 2 = 1 / 2 ^ Suc j" by simp
    then show ?thesis using round64_pow2[OF j(2)] by (simp only:)
  qed
  ultimately have "np_median_r round64 (replicate (2 ^ Suc j) (1 / 2 ^ Suc j)) = Fin (1 / 2 ^ Suc j)"
    by (intro np_median_r_replicate) simp_all
  then show ?thesis
    using assms(1) Suc by (simp add: calc_ideal_heavy_output_r_eq)
qed

text \<open>
  Claim C2. For a depth \<open>depth \<ge> 0\<close>, a vector of \<open>2 ** depth\<close> probabilities and every
  rounding of doubles the heavy outputs are returned without error, each once, in index
  order: they are the strings \<open>format_b depth b\<close> of the indices \<open>b\<close> whose probability is
  strictly greater than the median of the vector, the double that \<open>np.median\<close> returns. As
  a set they are exactly the bit strings of length \<open>depth\<close> whose index has a probability
  strictly above that median. For a vector of equal values \<open>c\<close> no string is returned,
  provided that doubling \<open>c\<close> and halving the result are exact; for the uniform
  distribution, all values \<open>1 / 2 ** depth\<close>, they are exact in binary64 and no string is
  returned (up to depth 1022, where the normal doubles end).
\<close>

theorem heavy_outputs_above_median:
  assumes "0 \<le> depth" and "length pv = 2 ^ nat depth"
  shows "(\<exists>hs. calc_ideal_heavy_output_r rnd pv depth = Inr hs \<and> distinct hs
           \<and> hs = map (format_b (nat depth))
                    (filter (\<lambda>b. fgt (Fin (pv ! b)) (np_median_r rnd pv)) [0..<2 ^ nat depth])
           \<and> set hs = {s. length s = nat depth \<and> set s \<subseteq> {CHR ''0'', CHR ''1''}
                          \<and> fgt (Fin (pv ! bin_val s)) (np_median_r rnd pv)})
       \<and> (rnd (c + c) = Fin (c + c) \<and> rnd ((c + c) / 2) = Fin c \<longrightarrow>
            calc_ideal_heavy_output_r rnd (replicate (2 ^ nat depth) c) depth = Inr [])
       \<and> (depth \<le> 1022 \<longrightarrow>
            calc_ideal_heavy_output_r round64
              (replicate (2 ^ nat depth) (1 / 2 ^ nat depth)) depth = Inr [])"
proof (intro conjI exI impI)
  show "calc_ideal_heavy_output_r rnd pv depth =
      Inr (map (format_b (nat depth))
            (filter (\<lambda>b. fgt (Fin (pv ! b)) (np_median_r rnd pv)) [0..<2 ^ nat depth]))"
    using assms by (simp add: calc_ideal_heavy_output_r_eq)
  show "distinct (map (format_b (nat depth))
            (filter (\<lambda>b. fgt (Fin (pv ! b)) (np_median_r rnd pv)) [0..<2 ^ nat depth]))"
    by (simp add: distinct_map inj_on_subset[OF inj_format_b])
  show "set (map (format_b (nat depth))
            (filter (\<lambda>b. fgt (Fin (pv ! b)) (np_median_r rnd pv)) [0..<2 ^ nat depth]))
      = {s. length s = nat depth \<and> set s \<subseteq> {CHR ''0'', CHR ''1''}
            \<and> fgt (Fin (pv ! bin_val s)) (np_median_r rnd pv)}"
  proof (rule heavy_set_with [OF assms(2)])
    assume "nat depth = 0"
    with assms(2) obtain x where "pv = [x]" by (cases pv) auto
    then show "np_median_r rnd pv = Fin (pv ! 0)" by (simp add: np_median_r_single)
  qed
  show "calc_ideal_heavy_output_r rnd (replicate (2 ^ nat depth) c) depth = Inr []"
    if "rnd (c + c) = Fin (c + c) \<and> rnd ((c + c) / 2) = Fin c"
    using that assms(1) by (simp add: calc_ideal_heavy_output_r_eq np_median_r_replicate)
  show "calc_ideal_heavy_output_r round64
      (replicate (2 ^ nat depth) (1 / 2 ^ nat depth)) depth = Inr []"
    if "depth \<le> 1022"
    using assms(1) that by (rule uniform_binary64)
qed simp

lemma med_r1: "round64 (5404319552844595 / 2 ^ 54 + 1351079888211149 / 2 ^ 52) = Fin (1351079888211149 / 2 ^ 51)"
  using round64_eval[where x = "5404319552844595 / 2 ^ 54 + 1351079888211149 / 2 ^ 52" and m = 53 and k = 5404319552844596]
  by (simp add: rne_def)

lemma med_r2: "round64 ((1351079888211149 / 2 ^ 51) / 2) = Fin (1351079888211149 / 2 ^ 52)"
  using round64_eval[where x = "(1351079888211149 / 2 ^ 51) / 2" and m = 54 and k = 5404319552844596]
  by (simp add: rne_def)

lemma med_r3: "round64 (3602879701896397 / 2 ^ 54 + 3602879701896397 / 2 ^ 52) = Fin (1)"
  using round64_eval[where x = "3602879701896397 / 2 ^ 54 + 3602879701896397 / 2 ^ 52" and m = 52 and k = 4503599627370496]
  by (simp add: rne_def)

lemma med_r4: "round64 (1 / 2) = Fin (1 / 2)"
  using round64_eval[where x = "1 / 2" and m = 53 and k = 4503599627370496]
  by (simp add: rne_def)

lemma med_r5: "round64 (1 / 2 + 1 / 2) = Fin (1)"
  using round64_eval[where x = "1 / 2 + 1 / 2" and m = 52 and k = 4503599627370496]
  by (simp add: rne_def)

lemma med_r6: "round64 ((1 / 2 + 1 / 2) / 2) = Fin (1 / 2)"
  using round64_eval[where x = "(1 / 2 + 1 / 2) / 2" and m = 53 and k = 4503599627370496]
  by (simp add: rne_def)

lemma med_r7: "round64 (9007199254740991 / 2 ^ 54 + 1 / 2) = Fin (1)"
  using round64_eval[where x = "9007199254740991 / 2 ^ 54 + 1 / 2" and m = 53 and k = 9007199254740992]
  by (simp add: rne_def)

lemma median_near_tie: "np_median_r round64 [5404319552844595 / 2 ^ 54, 1351079888211149 / 2 ^ 52] = Fin (1351079888211149 / 2 ^ 52)"
proof -
  have "fadd_r round64 (Fin (5404319552844595 / 2 ^ 54)) (Fin (1351079888211149 / 2 ^ 52)) = Fin (1351079888211149 / 2 ^ 51)"
    using med_r1 by (simp add: fadd_r_def)
  moreover have "fdiv_r round64 (Fin (1351079888211149 / 2 ^ 51)) (Fin 2) = Fin (1351079888211149 / 2 ^ 52)"
    using med_r2 by (simp add: fdiv_r_def)
  ultimately show ?thesis
    by (simp add: np_median_r_def)
qed

lemma median_near_half: "np_median_r round64 [9007199254740991 / 2 ^ 54, 1 / 2] = Fin (1 / 2)"
proof -
  have "fadd_r round64 (Fin (9007199254740991 / 2 ^ 54)) (Fin (1 / 2)) = Fin 1"
    using med_r7 by (simp add: fadd_r_def)
  moreover have "fdiv_r round64 (Fin 1) (Fin 2) = Fin (1 / 2)"
    using med_r4 by (simp add: fdiv_r_def)
  ultimately show ?thesis
    by (simp add: np_median_r_def)
qed

lemma median_fifth: "np_median_r round64 [3602879701896397 / 2 ^ 54, 3602879701896397 / 2 ^ 52] = Fin (1 / 2)"
proof -
  have "fadd_r round64 (Fin (3602879701896397 / 2 ^ 54)) (Fin (3602879701896397 / 2 ^ 52)) = Fin 1"
    using med_r3 by (simp add: fadd_r_def)
  moreover have "fdiv_r round64 (Fin 1) (Fin 2) = Fin (1 / 2)"
    using med_r4 by (simp add: fdiv_r_def)
  ultimately show ?thesis
    by (simp add: np_median_r_def)
qed

text \<open>
  Depth 1 with the neighbouring doubles 0.3 and 0.30000000000000004: the exact mean lies
  strictly between them, the sum rounds to an even mantissa and the median returned is
  the larger of the two, so no output is heavy; likewise for 0.49999999999999994 and 0.5,
  which sum to 1. With the doubles 0.2 and 0.8 the median is 0.5 and the heavy outputs
  are \<open>{"1"}\<close>; with 0.5 and 0.5 there is none.
\<close>

theorem heavy_outputs_above_median_witness:
  "(0::int) \<le> 1 \<and> length [5404319552844595 / 2 ^ 54, 1351079888211149 / 2 ^ 52 :: real] = 2 ^ nat 1
   \<and> np_median_r round64 [5404319552844595 / 2 ^ 54, 1351079888211149 / 2 ^ 52] = Fin (1351079888211149 / 2 ^ 52)
   \<and> (5404319552844595 / 2 ^ 54 + 1351079888211149 / 2 ^ 52) / 2 < (1351079888211149 / 2 ^ 52 :: real)
   \<and> calc_ideal_heavy_output_r round64 [5404319552844595 / 2 ^ 54, 1351079888211149 / 2 ^ 52] 1 = Inr []
   \<and> (9007199254740991 / 2 ^ 54 + 1 / 2) / 2 < (1 / 2 :: real)
   \<and> calc_ideal_heavy_output_r round64 [9007199254740991 / 2 ^ 54, 1 / 2] 1 = Inr []
   \<and> calc_ideal_heavy_output_r round64 [3602879701896397 / 2 ^ 54, 3602879701896397 / 2 ^ 52] 1 = Inr [''1'']
   \<and> calc_ideal_heavy_output_r round64 [1 / 2, 1 / 2] 1 = Inr []"
proof -
  have d: "(0::int) \<le> 1" by simp
  have len: "length [5404319552844595 / 2 ^ 54, 1351079888211149 / 2 ^ 52 :: real] = 2 ^ nat 1"
    and len2: "length [3602879701896397 / 2 ^ 54, 3602879701896397 / 2 ^ 52 :: real] = 2 ^ nat 1"
    and len3: "length [9007199254740991 / 2 ^ 54, 1 / 2 :: real] = 2 ^ nat 1"
    by simp_all
  have up: "[0..<2] = [0, Suc 0]"
    by (simp add: upt_rec)
  have fmt: "format_b (Suc 0) (Suc 0) = ''1''"
    by (simp add: format_b_def bin_digits.simps)
  have rep: "replicate 2 (1 / 2 :: real) = [1 / 2, 1 / 2]"
    by (simp add: numeral_2_eq_2)
  have exact_half: "round64 (1 / 2 + 1 / 2) = Fin (1 / 2 + 1 / 2)
      \<and> round64 ((1 / 2 + 1 / 2) / 2) = Fin (1 / 2)"
    using med_r5 med_r6 by simp
  note near = heavy_outputs_above_median [OF d len, where rnd = round64 and c = "1 / 2"]
  note fifth = heavy_outputs_above_median [OF d len2, where rnd = round64 and c = "1 / 2"]
  from near have "calc_ideal_heavy_output_r round64 [5404319552844595 / 2 ^ 54, 1351079888211149 / 2 ^ 52] 1 =
      Inr (map (format_b (nat 1))
        (filter (\<lambda>b. fgt (Fin ([5404319552844595 / 2 ^ 54, 1351079888211149 / 2 ^ 52] ! b)) (np_median_r round64 [5404319552844595 / 2 ^ 54, 1351079888211149 / 2 ^ 52])) [0..<2 ^ nat 1]))"
    by auto
  then have tie: "calc_ideal_heavy_output_r round64 [5404319552844595 / 2 ^ 54, 1351079888211149 / 2 ^ 52] 1 = Inr []"
    using median_near_tie by (simp add: up)
  from fifth have "calc_ideal_heavy_output_r round64 [3602879701896397 / 2 ^ 54, 3602879701896397 / 2 ^ 52] 1 =
      Inr (map (format_b (nat 1))
        (filter (\<lambda>b. fgt (Fin ([3602879701896397 / 2 ^ 54, 3602879701896397 / 2 ^ 52] ! b)) (np_median_r round64 [3602879701896397 / 2 ^ 54, 3602879701896397 / 2 ^ 52])) [0..<2 ^ nat 1]))"
    by auto
  then have one: "calc_ideal_heavy_output_r round64 [3602879701896397 / 2 ^ 54, 3602879701896397 / 2 ^ 52] 1 = Inr [''1'']"
    using median_fifth by (simp add: up fmt)
  from heavy_outputs_above_median [OF d len3, where rnd = round64 and c = "1 / 2"]
  have "calc_ideal_heavy_output_r round64 [9007199254740991 / 2 ^ 54, 1 / 2] 1 =
      Inr (map (format_b (nat 1))
        (filter (\<lambda>b. fgt (Fin ([9007199254740991 / 2 ^ 54, 1 / 2] ! b)) (np_median_r round64 [9007199254740991 / 2 ^ 54, 1 / 2])) [0..<2 ^ nat 1]))"
    by auto
  then have half: "calc_ideal_heavy_output_r round64 [9007199254740991 / 2 ^ 54, 1 / 2] 1 = Inr []"
    using median_near_half by (simp add: up)
  from near exact_half
  have "calc_ideal_heavy_output_r round64 (replicate (2 ^ nat 1) (1 / 2)) 1 = Inr []"
    by blast
  then have uniform: "calc_ideal_heavy_output_r round64 [1 / 2, 1 / 2] 1 = Inr []"
    by (simp add: rep)
  have "(5404319552844595 / 2 ^ 54 + 1351079888211149 / 2 ^ 52) / 2 < (1351079888211149 / 2 ^ 52 :: real)" and "(9007199254740991 / 2 ^ 54 + 1 / 2) / 2 < (1 / 2 :: real)" by simp_all
  with d len median_near_tie tie half one uniform show ?thesis by blast
qed

section \<open>Properties of the measured heavy-output probability\<close>

lemma dict_get_absent: "k \<notin> fst ` set c \<Longrightarrow> dict_get c k = 0"
  by (simp add: dict_get_def map_of_eq_None_iff[THEN iffD2])

lemma sum_values_eq:
  "distinct (map fst c) \<Longrightarrow> sum_list (map snd c) = (\<Sum>k\<in>fst ` set c. dict_get c k)"
proof (induction c)
  case Nil
  show ?case by simp
next
  case (Cons kv c)
  obtain k v where kv: "kv = (k, v)" by (cases kv)
  from Cons.prems kv have fresh: "k \<notin> fst ` set c" and dist: "distinct (map fst c)"
    by auto
  have "(\<Sum>x\<in>fst ` set c. dict_get ((k, v) # c) x) = (\<Sum>x\<in>fst ` set c. dict_get c x)"
    using fresh by (intro sum.cong) (auto simp: dict_get_def)
  with Cons.IH[OF dist] fresh kv show ?case
    by (simp add: dict_get_def)
qed

lemma sum_heavy_eq: "distinct hs \<Longrightarrow> sum_list (map (dict_get c) hs) = (\<Sum>b\<in>set hs. dict_get c b)"
  by (simp add: sum_list_distinct_conv_sum_set)

lemma sum_heavy_le:
  assumes "distinct (map fst c)" and "distinct hs"
  shows "sum_list (map (dict_get c) hs) \<le> sum_list (map snd c)"
proof -
  have "(\<Sum>b\<in>set hs. dict_get c b) = (\<Sum>b\<in>set hs \<inter> fst ` set c. dict_get c b)"
    by (rule sum.mono_neutral_right) (auto simp: dict_get_absent)
  also have "\<dots> \<le> (\<Sum>k\<in>fst ` set c. dict_get c k)"
    by (rule sum_mono2) auto
  finally show ?thesis
    using assms by (simp add: sum_values_eq sum_heavy_eq)
qed

text \<open>
  Claim C4. Let the keys of \<open>counts\<close> be distinct, as in a dict, and let the heavy outputs
  be distinct, as in a set. Then the heavy-output probability of a trial fails exactly when
  the total shot count, the sum of the counts over all keys, is zero, and only with a
  \<open>ZeroDivisionError\<close>; otherwise it is the sum of the counts of the heavy outputs divided
  by the total shot count, a number between 0 and 1.
\<close>

theorem heavy_output_probability:
  assumes "distinct (map fst (counts t))" and "distinct hs"
  shows "((\<exists>e. calc_exp_heavy_output_probability t hs = Inl e) \<longleftrightarrow>
            (\<Sum>k\<in>fst ` set (counts t). dict_get (counts t) k) = 0)
       \<and> (\<forall>e. calc_exp_heavy_output_probability t hs = Inl e \<longrightarrow> e = ZeroDivisionError)
       \<and> (\<forall>p. calc_exp_heavy_output_probability t hs = Inr p \<longrightarrow>
             p = real (\<Sum>b\<in>set hs. dict_get (counts t) b)
                   / real (\<Sum>k\<in>fst ` set (counts t). dict_get (counts t) k)
             \<and> 0 \<le> p \<and> p \<le> 1)"
proof -
  define shots where "shots = sum_list (map snd (counts t))"
  define heavy where "heavy = sum_list (map (dict_get (counts t)) hs)"
  have shots: "(\<Sum>k\<in>fst ` set (counts t). dict_get (counts t) k) = shots"
    unfolding shots_def using assms(1) by (rule sum_values_eq[symmetric])
  have heavy: "(\<Sum>b\<in>set hs. dict_get (counts t) b) = heavy"
    unfolding heavy_def using assms(2) by (rule sum_heavy_eq[symmetric])
  have le: "heavy \<le> shots"
    unfolding heavy_def shots_def using assms by (rule sum_heavy_le)
  have res: "calc_exp_heavy_output_probability t hs =
      (if shots = 0 then Inl ZeroDivisionError else Inr (real heavy / real shots))"
    by (simp add: calc_exp_heavy_output_probability_def Let_def shots_def heavy_def)
  have "real heavy / real shots \<le> 1" if "shots \<noteq> 0"
    using that le by (simp add: divide_le_eq_1)
  with res show ?thesis
    unfolding shots heavy by (auto split: if_splits)
qed

text \<open>
  60 of 100 shots on heavy outputs give 0.6; a trial without shots raises.
\<close>

theorem heavy_output_probability_witness:
  "distinct (map fst [(''00'', 30::nat), (''01'', 10), (''11'', 60)]) \<and> distinct [''11'', ''10'']
   \<and> calc_exp_heavy_output_probability
        \<lparr> counts = [(''00'', 30), (''01'', 10), (''11'', 60)],
          metadata = \<lparr> ideal_probabilities = [1 / 10, 1 / 10, 3 / 10, 1 / 2], md_depth = 2 \<rparr> \<rparr>
        [''11'', ''10''] = Inr (3 / 5)
   \<and> calc_exp_heavy_output_probability
        \<lparr> counts = [], metadata = \<lparr> ideal_probabilities = [1], md_depth = 0 \<rparr> \<rparr> []
        = Inl ZeroDivisionError"
proof -
  let ?t = "\<lparr> counts = [(''00'', 30::nat), (''01'', 10), (''11'', 60)],
          metadata = \<lparr> ideal_probabilities = [1 / 10, 1 / 10, 3 / 10, 1 / 2], md_depth = 2 \<rparr> \<rparr>"
  let ?e = "\<lparr> counts = [], metadata = \<lparr> ideal_probabilities = [1], md_depth = 0 \<rparr> \<rparr>"
  have d1: "distinct (map fst (counts ?t))" and d2: "distinct [''11'', ''10'']"
    and d3: "distinct (map fst (counts ?e))" and d4: "distinct ([] :: string list)"
    by simp_all
  from heavy_output_probability [OF d1 d2]
  have "\<exists>p. calc_exp_heavy_output_probability ?t [''11'', ''10''] = Inr p"
    by (cases "calc_exp_heavy_output_probability ?t [''11'', ''10'']") (auto simp: dict_get_def)
  then obtain p where p: "calc_exp_heavy_output_probability ?t [''11'', ''10''] = Inr p" ..
  with heavy_output_probability [OF d1 d2] have "p = 3 / 5"
    by (simp add: dict_get_def)
  moreover from heavy_output_probability [OF d3 d4]
  have "calc_exp_heavy_output_probability ?e [] = Inl ZeroDivisionError"
    by (cases "calc_exp_heavy_output_probability ?e []") auto
  ultimately show ?thesis using p d1 d2 by simp
qed

section \<open>Properties of the analysis of one experiment\<close>

lemma trial_loop_step:
  "trial_loop acc (t # ts) =
     (case trial_hop t of Inl e \<Rightarrow> Inl e | Inr p \<Rightarrow> trial_loop (acc @ [p]) ts)"
  by (simp add: trial_hop_def split: sum.splits)

lemma trial_loop_Inr:
  "trial_loop acc ts = Inr hs \<Longrightarrow>
     \<exists>ps. hs = acc @ ps \<and> list_all2 (\<lambda>t p. trial_hop t = Inr p) ts ps"
proof (induction ts arbitrary: acc)
  case Nil
  then show ?case by simp
next
  case (Cons t ts)
  from Cons.prems obtain p where p: "trial_hop t = Inr p"
    and rest: "trial_loop (acc @ [p]) ts = Inr hs"
    by (auto simp: trial_loop_step simp del: trial_loop.simps split: sum.splits)
  from Cons.IH[OF rest] obtain ps where "hs = (acc @ [p]) @ ps"
    "list_all2 (\<lambda>t p. trial_hop t = Inr p) ts ps" by blast
  with p show ?case
    by (intro exI[of _ "p # ps"]) simp
qed

lemma trial_loop_replicate:
  "trial_hop t = Inr p \<Longrightarrow> trial_loop acc (replicate k t) = Inr (acc @ replicate k p)"
proof (induction k arbitrary: acc)
  case 0
  show ?case by simp
next
  case (Suc k)
  from Suc.IH[OF Suc.prems, of "acc @ [p]"] Suc.prems show ?case
    by (simp add: trial_loop_step replicate_app_Cons_same del: trial_loop.simps)
qed

text \<open>
  Claim C10, amended. Whenever the analysis of an experiment returns, it returns one
  record whose depth is the experiment's number of qubits and whose quantum volume is
  \<open>2 ** num_qubits\<close> on success and 1 otherwise. The depth of a trial's metadata enters only
  the heavy outputs of that trial, hence its probability in the record; it can change the
  quantum volume through the success flag only, never the exponent.
\<close>

theorem quantum_volume_depth_from_experiment:
  assumes "qv_run_analysis erf has_matplotlib format_plot ed plot = (Inr (res, figs), w)"
  shows "\<exists>r ps. res = ResultList [r]
      \<and> qv_depth r = num_qubits ed
      \<and> qv_quantum_volume r = (if qv_success r then py_pow2 (num_qubits ed) else PyInt 1)
      \<and> qv_trials r = int (length (data ed))
      \<and> qv_heavy_output_probability r = map Fin ps
      \<and> list_all2 (\<lambda>t p. trial_hop t = Inr p) (data ed) ps"
proof -
  from assms obtain hs where hs: "trial_loop [] (data ed) = Inr hs"
    by (auto simp: qv_run_analysis_def Let_def split: sum.splits)
  define r where "r = (case fst (calc_quantum_volume erf (map Fin hs) (num_qubits ed)
      (int (length (data ed)))) of Inr r \<Rightarrow> r)"
  have r: "fst (calc_quantum_volume erf (map Fin hs) (num_qubits ed) (int (length (data ed)))) = Inr r"
    by (simp add: r_def calc_quantum_volume_eq Let_def)
  from assms hs r have res: "res = ResultList [r]"
    by (auto simp: qv_run_analysis_def Let_def split: sum.splits prod.splits if_splits)
  from r have fields: "qv_depth r = num_qubits ed"
    "qv_quantum_volume r = (if qv_success r then py_pow2 (num_qubits ed) else PyInt 1)"
    "qv_trials r = int (length (data ed))"
    "qv_heavy_output_probability r = map Fin hs"
    by (auto simp: calc_quantum_volume_eq Let_def)
  from trial_loop_Inr[OF hs] have "list_all2 (\<lambda>t p. trial_hop t = Inr p) (data ed) hs"
    by simp
  with res fields show ?thesis by blast
qed

lemma median_example: "np_median [1 / 10, 1 / 10, 3 / 10, 1 / 2] = Fin (1 / 5)"
  by (simp add: np_median_def)

lemma upt_4: "[0..<4] = [0, 1, 2, 3]"
  by (simp add: upt_rec)

lemma upt_2: "[0..<2] = [0, 1]"
  by (simp add: upt_rec)

lemma format_b_2_2: "format_b 2 2 = ''10''"
  by (simp add: format_b_def bin_digits.simps)

lemma format_b_2_3: "format_b 2 3 = ''11''"
  by (simp add: format_b_def bin_digits.simps)

lemma heavy_depth_2: "calc_ideal_heavy_output [1 / 10, 1 / 10, 3 / 10, 1 / 2] 2 = Inr [''10'', ''11'']"
  by (simp add: calc_ideal_heavy_output_eq median_example upt_4 format_b_2_2 format_b_2_3)

lemma heavy_depth_1: "calc_ideal_heavy_output [1 / 10, 1 / 10, 3 / 10, 1 / 2] 1 = Inr []"
  by (simp add: calc_ideal_heavy_output_eq median_example upt_2)

lemma trial_hop_depth_2: "trial_hop (two_qubit_trial 2) = Inr 1"
  by (simp add: trial_hop_def heavy_depth_2 calc_exp_heavy_output_probability_def dict_get_def)

lemma trial_hop_depth_1: "trial_hop (two_qubit_trial 1) = Inr 0"
  by (simp add: trial_hop_def heavy_depth_1 calc_exp_heavy_output_probability_def)

lemma sqrt_2_le_2: "sqrt 2 \<le> 2"
  by (rule real_le_lsqrt) simp_all

lemma clipped_above: "1 \<le> x \<Longrightarrow> clipped x = 1"
  by simp

lemma clipped_below: "x \<le> - 1 \<Longrightarrow> clipped x = - 1"
  by simp

lemma clipped_high: "clipped ((1 - 2 / 3) / (1 / 10 ^ 10) / sqrt 2) = 1"
proof (rule clipped_above)
  show "(1::real) \<le> (1 - 2 / 3) / (1 / 10 ^ 10) / sqrt 2"
    using sqrt_2_le_2 by (simp add: pos_le_divide_eq)
qed

lemma clipped_low: "clipped ((0 - 2 / 3) / (1 / 10 ^ 10) / sqrt 2) = - 1"
proof (rule clipped_below)
  show "(0 - 2 / 3) / (1 / 10 ^ 10) / sqrt 2 \<le> (- 1 :: real)"
    using sqrt_2_le_2 by (simp add: pos_divide_le_eq)
qed

lemma run_depth_2:
  "qv_run_analysis clipped False format_plot
     \<lparr> num_qubits = q, data = replicate 100 (two_qubit_trial 2) \<rparr> False
   = (Inr (ResultList [\<lparr> qv_quantum_volume = py_pow2 q, qv_success = True,
         qv_confidence = Fin 1, qv_heavy_output_probability = replicate 100 (Fin 1),
         qv_mean_hop = Fin 1, qv_sigma = Fin 0, qv_depth = q, qv_trials = 100 \<rparr>], NoFigures),
      [sigma_warning])"
proof -
  have "trial_loop [] (replicate 100 (two_qubit_trial 2)) = Inr (replicate 100 1)"
    using trial_loop_replicate[OF trial_hop_depth_2, of "[]" 100] by simp
  moreover have "calc_confidence_level clipped (fdiv (fsub (Fin 1) (Fin (2 / 3))) (Fin (1 / 10 ^ 10)))
      = Fin 1"
    unfolding calc_confidence_level_def fsub_def fneg.simps fadd.simps fdiv.simps ferf.simps
    using clipped_high by simp
  ultimately show ?thesis
    by (simp add: qv_run_analysis_def calc_quantum_volume_eq np_mean_replicate Let_def fsub_def)
qed

lemma run_depth_1:
  "qv_run_analysis clipped False format_plot
     \<lparr> num_qubits = q, data = replicate 100 (two_qubit_trial 1) \<rparr> False
   = (Inr (ResultList [\<lparr> qv_quantum_volume = PyInt 1, qv_success = False,
         qv_confidence = Fin 0, qv_heavy_output_probability = replicate 100 (Fin 0),
         qv_mean_hop = Fin 0, qv_sigma = Fin 0, qv_depth = q, qv_trials = 100 \<rparr>], NoFigures),
      [sigma_warning])"
proof -
  have "trial_loop [] (replicate 100 (two_qubit_trial 1)) = Inr (replicate 100 0)"
    using trial_loop_replicate[OF trial_hop_depth_1, of "[]" 100] by simp
  moreover have "calc_confidence_level clipped (fdiv (fsub (Fin 0) (Fin (2 / 3))) (Fin (1 / 10 ^ 10)))
      = Fin 0"
    unfolding calc_confidence_level_def fsub_def fneg.simps fadd.simps fdiv.simps ferf.simps
    using clipped_low by simp
  ultimately show ?thesis
    by (simp add: qv_run_analysis_def calc_quantum_volume_eq np_mean_replicate Let_def fsub_def)
qed

text \<open>
  Claim C10 as stated fails in its last part: two experiments over two qubits that differ
  only in the depth of their trials' metadata (2 and 1) have the quantum volumes 4 and 1.
  At depth 1 only the indices 0 and 1 are formatted, as \<open>0\<close> and \<open>1\<close>, and neither
  probability exceeds the median, so every trial has probability 0 and the success gate
  stays shut.
\<close>

theorem metadata_depth_changes_volume_counterexample:
  "fst (qv_run_analysis clipped False (\<lambda>r. Inr ())
          \<lparr> num_qubits = 2, data = replicate 100 (two_qubit_trial 2) \<rparr> False)
     = Inr (ResultList [\<lparr> qv_quantum_volume = PyInt 4, qv_success = True,
         qv_confidence = Fin 1, qv_heavy_output_probability = replicate 100 (Fin 1),
         qv_mean_hop = Fin 1, qv_sigma = Fin 0, qv_depth = 2, qv_trials = 100 \<rparr>], NoFigures)
   \<and> fst (qv_run_analysis clipped False (\<lambda>r. Inr ())
          \<lparr> num_qubits = 2, data = replicate 100 (two_qubit_trial 1) \<rparr> False)
     = Inr (ResultList [\<lparr> qv_quantum_volume = PyInt 1, qv_success = False,
         qv_confidence = Fin 0, qv_heavy_output_probability = replicate 100 (Fin 0),
         qv_mean_hop = Fin 0, qv_sigma = Fin 0, qv_depth = 2, qv_trials = 100 \<rparr>], NoFigures)"
  by (simp add: run_depth_2 run_depth_1 py_pow2_def)

text \<open>
  Three qubits, trials of metadata depth 2: success with quantum volume 8 and depth 3.
\<close>

theorem quantum_volume_depth_from_experiment_witness:
  "\<exists>r w. qv_run_analysis clipped False (\<lambda>r. Inr ())
          \<lparr> num_qubits = 3, data = replicate 100 (two_qubit_trial 2) \<rparr> False
        = (Inr (ResultList [r], NoFigures), w)
      \<and> qv_success r \<and> qv_depth r = 3 \<and> qv_quantum_volume r = PyInt 8
      \<and> qv_heavy_output_probability r = replicate 100 (Fin 1)"
proof -
  let ?ed = "\<lparr> num_qubits = 3, data = replicate 100 (two_qubit_trial 2) \<rparr>"
  let ?r = "\<lparr> qv_quantum_volume = py_pow2 3, qv_success = True,
         qv_confidence = Fin 1, qv_heavy_output_probability = replicate 100 (Fin 1),
         qv_mean_hop = Fin 1, qv_sigma = Fin 0, qv_depth = 3, qv_trials = 100 \<rparr>"
  have run: "qv_run_analysis clipped False (\<lambda>r. Inr ()) ?ed False
      = (Inr (ResultList [?r], NoFigures :: unit figures), [sigma_warning])"
    by (rule run_depth_2)
  from quantum_volume_depth_from_experiment [OF run]
  have "qv_depth ?r = num_qubits ?ed"
    and "qv_quantum_volume ?r = (if qv_success ?r then py_pow2 (num_qubits ?ed) else PyInt 1)"
    by auto
  then have "qv_depth ?r = 3" and "qv_quantum_volume ?r = PyInt 8"
    by (simp_all add: py_pow2_def)
  with run show ?thesis
    by (intro exI[of _ ?r] exI[of _ "[sigma_warning]"]) simp
qed

section \<open>Properties of the composite analysis\<close>

subsection \<open>The loop\<close>

lemma component_loop_step:
  "component_loop ce opts (i # is) (ts, ids, qs) st =
     (let st1 = st \<lparr> component_experiment_data := (component_experiment_data st) (i := analysed ce opts st i),
                     analysis_calls := analysis_calls st @ [i] \<rparr>
      in case raised ce opts st i of
           Some e \<Rightarrow> (Inl e, st1)
         | None \<Rightarrow> component_loop ce opts is
             (ts @ [experiment_type (analysed ce opts st i)],
              ids @ [experiment_id (analysed ce opts st i)],
              qs @ [physical_qubits (analysed ce opts st i)]) st1)"
  by (cases "run_analysis (component_experiment ce i) opts (component_experiment_data st i)")
    (simp add: analysed_def raised_def Let_def split: option.splits)

declare component_loop.simps(2) [simp del]

lemma component_loop_success:
  assumes "component_loop ce opts is (ts, ids, qs) st = (Inr (ts', ids', qs'), st')"
    and "distinct is"
  shows "ts' = ts @ map (\<lambda>i. experiment_type (analysed ce opts st i)) is
       \<and> ids' = ids @ map (\<lambda>i. experiment_id (analysed ce opts st i)) is
       \<and> qs' = qs @ map (\<lambda>i. physical_qubits (analysed ce opts st i)) is
       \<and> analysis_calls st' = analysis_calls st @ is
       \<and> (\<forall>i\<in>set is. raised ce opts st i = None
              \<and> component_experiment_data st' i = analysed ce opts st i)
       \<and> (\<forall>j. j \<notin> set is \<longrightarrow> component_experiment_data st' j = component_experiment_data st j)"
  using assms
proof (induction "is" arbitrary: ts ids qs st)
  case Nil
  then show ?case by simp
next
  case (Cons i "is")
  let ?st1 = "st \<lparr> component_experiment_data := (component_experiment_data st) (i := analysed ce opts st i),
                     analysis_calls := analysis_calls st @ [i] \<rparr>"
  from Cons.prems(1) have none: "raised ce opts st i = None"
    by (auto simp: component_loop_step Let_def split: option.splits)
  with Cons.prems(1) have rest: "component_loop ce opts is
             (ts @ [experiment_type (analysed ce opts st i)],
              ids @ [experiment_id (analysed ce opts st i)],
              qs @ [physical_qubits (analysed ce opts st i)]) ?st1 = (Inr (ts', ids', qs'), st')"
    by (simp add: component_loop_step Let_def)
  from Cons.prems(2) have dist: "distinct is" and fresh: "i \<notin> set is" by auto
  have same: "analysed ce opts ?st1 j = analysed ce opts st j"
    "raised ce opts ?st1 j = raised ce opts st j" if "j \<in> set is" for j
    using that fresh by (auto simp: analysed_def raised_def)
  note IH = Cons.IH[OF rest dist]
  from IH have "ts' = (ts @ [experiment_type (analysed ce opts st i)])
      @ map (\<lambda>i. experiment_type (analysed ce opts ?st1 i)) is" by blast
  then have 1: "ts' = ts @ map (\<lambda>i. experiment_type (analysed ce opts st i)) (i # is)"
    using same by (simp cong: map_cong)
  from IH have "ids' = (ids @ [experiment_id (analysed ce opts st i)])
      @ map (\<lambda>i. experiment_id (analysed ce opts ?st1 i)) is" by blast
  then have 2: "ids' = ids @ map (\<lambda>i. experiment_id (analysed ce opts st i)) (i # is)"
    using same by (simp cong: map_cong)
  from IH have "qs' = (qs @ [physical_qubits (analysed ce opts st i)])
      @ map (\<lambda>i. physical_qubits (analysed ce opts ?st1 i)) is" by blast
  then have 3: "qs' = qs @ map (\<lambda>i. physical_qubits (analysed ce opts st i)) (i # is)"
    using same by (simp cong: map_cong)
  from IH have 4: "analysis_calls st' = analysis_calls st @ i # is" by simp
  from IH have other: "\<forall>j. j \<notin> set is \<longrightarrow> component_experiment_data st' j = component_experiment_data ?st1 j"
    by blast
  from IH same have tail: "\<forall>j\<in>set is. raised ce opts st j = None
              \<and> component_experiment_data st' j = analysed ce opts st j"
    by simp
  from other fresh have head: "component_experiment_data st' i = analysed ce opts st i"
    by simp
  from other have 6: "\<forall>j. j \<notin> set (i # is) \<longrightarrow> component_experiment_data st' j = component_experiment_data st j"
    by simp
  from 1 2 3 4 none head tail 6 show ?case by simp
qed

lemma component_loop_failure:
  assumes "distinct (pre @ i # post)"
    and "\<forall>j\<in>set pre. raised ce opts st j = None"
    and "raised ce opts st i = Some e"
  shows "\<exists>st'. component_loop ce opts (pre @ i # post) subs st = (Inl e, st')
       \<and> analysis_calls st' = analysis_calls st @ pre @ [i]
       \<and> (\<forall>j. j \<notin> set (pre @ [i]) \<longrightarrow> component_experiment_data st' j = component_experiment_data st j)"
  using assms
proof (induction pre arbitrary: subs st)
  case Nil
  obtain ts ids qs where subs: "subs = (ts, ids, qs)" by (cases subs)
  from Nil.prems(3) show ?case
    by (simp add: subs component_loop_step Let_def)
next
  case (Cons k pre)
  obtain ts ids qs where subs: "subs = (ts, ids, qs)" by (cases subs)
  let ?st1 = "st \<lparr> component_experiment_data := (component_experiment_data st) (k := analysed ce opts st k),
                     analysis_calls := analysis_calls st @ [k] \<rparr>"
  let ?subs1 = "(ts @ [experiment_type (analysed ce opts st k)],
              ids @ [experiment_id (analysed ce opts st k)],
              qs @ [physical_qubits (analysed ce opts st k)])"
  from Cons.prems(2) have none: "raised ce opts st k = None" by simp
  from Cons.prems(1) have dist: "distinct (pre @ i # post)" and fresh: "k \<notin> set pre" "k \<noteq> i"
    by auto
  have pre: "\<forall>j\<in>set pre. raised ce opts ?st1 j = None"
    using Cons.prems(2) fresh by (auto simp: raised_def)
  have i: "raised ce opts ?st1 i = Some e"
    using Cons.prems(3) fresh by (simp add: raised_def)
  from Cons.IH[OF dist pre i, of ?subs1] obtain st' where
    st': "component_loop ce opts (pre @ i # post) ?subs1 ?st1 = (Inl e, st')"
      "analysis_calls st' = analysis_calls ?st1 @ pre @ [i]"
      "\<forall>j. j \<notin> set (pre @ [i]) \<longrightarrow> component_experiment_data st' j = component_experiment_data ?st1 j"
    by blast
  from none st'(1) have "component_loop ce opts ((k # pre) @ i # post) subs st = (Inl e, st')"
    by (simp add: subs component_loop_step Let_def)
  moreover from st'(2) have "analysis_calls st' = analysis_calls st @ (k # pre) @ [i]" by simp
  moreover from st'(3) have "\<forall>j. j \<notin> set ((k # pre) @ [i]) \<longrightarrow>
      component_experiment_data st' j = component_experiment_data st j" by simp
  ultimately show ?case by blast
qed

subsection \<open>The analysis\<close>

lemma composite_run_analysis_success:
  assumes "composite_run_analysis ed opts st = (Inr (res, figs), st')"
  obtains ce ts ids qs where "ed = CompositeExperimentData ce"
    "component_loop ce opts [0..<num_experiments ce] ([], [], []) st = (Inr (ts, ids, qs), st')"
    "res = ResultList [\<lparr> experiment_types = ts, experiment_ids = ids, experiment_qubits = qs \<rparr>]"
    "figs = NoFigures"
  using assms
  by (auto simp: composite_run_analysis_def split: experiment_data.splits prod.splits sum.splits)

lemma component_loop_returns:
  assumes "distinct is" and "\<forall>i\<in>set is. raised ce opts st i = None"
  shows "\<exists>subs' st'. component_loop ce opts is subs st = (Inr subs', st')"
  using assms
proof (induction "is" arbitrary: subs st)
  case Nil
  show ?case by (intro exI) (rule component_loop.simps(1))
next
  case (Cons i "is")
  obtain ts ids qs where subs: "subs = (ts, ids, qs)" by (cases subs)
  let ?st1 = "st \<lparr> component_experiment_data := (component_experiment_data st) (i := analysed ce opts st i),
                     analysis_calls := analysis_calls st @ [i] \<rparr>"
  from Cons.prems have dist: "distinct is" and fresh: "i \<notin> set is"
    and none: "raised ce opts st i = None" by auto
  have "\<forall>j\<in>set is. raised ce opts ?st1 j = None"
    using Cons.prems(2) fresh by (auto simp: raised_def)
  from Cons.IH[OF dist this] none show ?case
    by (simp add: subs component_loop_step Let_def)
qed

text \<open>
  Claim C5. When no analysis of a sub-experiment raises, the composite analysis returns
  one record with the three sequences, each of length \<open>num_experiments\<close>; the entries at
  \<open>i\<close> are the type, the identifier and the physical qubits of the container of
  sub-experiment \<open>i\<close>, which is as its own analysis left it; and the analyses have been
  invoked for the indices \<open>0, \<dots>, num_experiments - 1\<close>, in this order, once each.
\<close>

theorem composite_aggregate:
  assumes "\<forall>i<num_experiments ce. raised ce opts st i = None"
  shows "\<exists>r st'. composite_run_analysis (CompositeExperimentData ce) opts st
          = (Inr (ResultList [r], NoFigures), st')
      \<and> length (experiment_types r) = num_experiments ce
      \<and> length (experiment_ids r) = num_experiments ce
      \<and> length (experiment_qubits r) = num_experiments ce
      \<and> (\<forall>i<num_experiments ce.
            component_experiment_data st' i = analysed ce opts st i
          \<and> experiment_types r ! i = experiment_type (component_experiment_data st' i)
          \<and> experiment_ids r ! i = experiment_id (component_experiment_data st' i)
          \<and> experiment_qubits r ! i = physical_qubits (component_experiment_data st' i))
      \<and> analysis_calls st' = analysis_calls st @ [0..<num_experiments ce]"
proof -
  have dist: "distinct [0..<num_experiments ce]" by simp
  from assms have "\<forall>i\<in>set [0..<num_experiments ce]. raised ce opts st i = None" by simp
  from component_loop_returns [OF dist this, of "([], [], [])"]
  obtain ts ids qs st' where
    loop: "component_loop ce opts [0..<num_experiments ce] ([], [], []) st = (Inr (ts, ids, qs), st')"
    by (metis prod_cases3)
  let ?r = "\<lparr> experiment_types = ts, experiment_ids = ids, experiment_qubits = qs \<rparr>"
  from loop have run: "composite_run_analysis (CompositeExperimentData ce) opts st
          = (Inr (ResultList [?r], NoFigures), st')"
    by (simp add: composite_run_analysis_def)
  from component_loop_success [OF loop dist]
  have ts: "ts = map (\<lambda>i. experiment_type (analysed ce opts st i)) [0..<num_experiments ce]"
    and ids: "ids = map (\<lambda>i. experiment_id (analysed ce opts st i)) [0..<num_experiments ce]"
    and qs: "qs = map (\<lambda>i. physical_qubits (analysed ce opts st i)) [0..<num_experiments ce]"
    and calls: "analysis_calls st' = analysis_calls st @ [0..<num_experiments ce]"
    and final: "\<forall>i\<in>set [0..<num_experiments ce]. component_experiment_data st' i = analysed ce opts st i"
    by auto
  from final have "\<forall>i<num_experiments ce. component_experiment_data st' i = analysed ce opts st i"
    by simp
  with ts ids qs calls have "length (experiment_types ?r) = num_experiments ce
      \<and> length (experiment_ids ?r) = num_experiments ce
      \<and> length (experiment_qubits ?r) = num_experiments ce
      \<and> (\<forall>i<num_experiments ce.
            component_experiment_data st' i = analysed ce opts st i
          \<and> experiment_types ?r ! i = experiment_type (component_experiment_data st' i)
          \<and> experiment_ids ?r ! i = experiment_id (component_experiment_data st' i)
          \<and> experiment_qubits ?r ! i = physical_qubits (component_experiment_data st' i))
      \<and> analysis_calls st' = analysis_calls st @ [0..<num_experiments ce]"
    by simp
  with run show ?thesis by blast
qed

text \<open>
  Claim C6. On experiment data that is not composite the analysis raises the
  \<open>QiskitError\<close> and leaves the state as it was: no analysis has been invoked and nothing is
  returned.
\<close>

theorem leaf_rejected:
  "composite_run_analysis (ExperimentData d) opts st =
     (Inl (QiskitError ''CompositeAnalysis must be run on CompositeExperimentData.''), st)"
  by (simp add: composite_run_analysis_def)

text \<open>
  Claim C7, amended. Whenever the composite analysis returns, it returns a list of
  exactly one record, and no figures.
\<close>

theorem composite_returns_singleton_list:
  assumes "composite_run_analysis ed opts st = (Inr (res, figs), st')"
  shows "(\<exists>r. res = ResultList [r]) \<and> figs = NoFigures"
  using assms by (auto elim: composite_run_analysis_success)

text \<open>
  Claim C8. If the analysis of sub-experiment \<open>i\<close> raises \<open>e\<close> and those before it do not,
  the composite analysis raises \<open>e\<close>: nothing is returned, the analyses invoked are those of
  \<open>0, \<dots>, i\<close>, and the containers after \<open>i\<close> are untouched.
\<close>

theorem child_failure_aborts:
  assumes "i < num_experiments ce"
    and "\<forall>j<i. raised ce opts st j = None"
    and "raised ce opts st i = Some e"
  shows "\<exists>st'. composite_run_analysis (CompositeExperimentData ce) opts st = (Inl e, st')
      \<and> analysis_calls st' = analysis_calls st @ [0..<Suc i]
      \<and> (\<forall>j. i < j \<longrightarrow> component_experiment_data st' j = component_experiment_data st j)"
proof -
  from assms(1) have split: "[0..<num_experiments ce] = [0..<i] @ i # [Suc i..<num_experiments ce]"
    by (metis le_add_diff_inverse less_imp_le_nat upt_add_eq_append upt_conv_Cons zero_le
        add.commute add_diff_cancel_left' less_imp_add_positive)
  have dist: "distinct ([0..<i] @ i # [Suc i..<num_experiments ce])"
    unfolding split[symmetric] by simp
  from assms(2) have pre: "\<forall>j\<in>set [0..<i]. raised ce opts st j = None" by simp
  from component_loop_failure [OF dist pre assms(3), of "([], [], [])"]
  obtain st' where st': "component_loop ce opts [0..<num_experiments ce] ([], [], []) st = (Inl e, st')"
    "analysis_calls st' = analysis_calls st @ [0..<i] @ [i]"
    "\<forall>j. j \<notin> set ([0..<i] @ [i]) \<longrightarrow> component_experiment_data st' j = component_experiment_data st j"
    unfolding split[symmetric] by blast
  from st'(1) have "composite_run_analysis (CompositeExperimentData ce) opts st = (Inl e, st')"
    by (simp add: composite_run_analysis_def)
  moreover from st'(2) have "analysis_calls st' = analysis_calls st @ [0..<Suc i]" by simp
  moreover from st'(3) have "\<forall>j. i < j \<longrightarrow> component_experiment_data st' j = component_experiment_data st j"
    by auto
  ultimately show ?thesis by blast
qed

subsection \<open>Examples\<close>

lemma upt_3: "[0..<3] = [0, 1, 2]"
  by (simp add: upt_rec numeral_3_eq_3)

text \<open>
  Three sub-experiments of types A, B, C: the record lists them in this order and every
  container holds one result.
\<close>

theorem composite_aggregate_witness:
  "\<exists>st'. (composite_run_analysis
       (CompositeExperimentData \<lparr> num_experiments = 3, component_experiment = (\<lambda>i. analysis_ok) \<rparr>)
       () three_state :: (py_error + composite_result analysis_results \<times> unit figures) \<times> string composite_state)
     = (Inr (ResultList [\<lparr> experiment_types = [''A'', ''B'', ''C''],
                           experiment_ids = [''id1'', ''id2'', ''id3''],
                           experiment_qubits = [[0], [1], [2, 3]] \<rparr>], NoFigures), st')
     \<and> analysis_calls st' = [0, 1, 2]
     \<and> map (\<lambda>i. stored_results (component_experiment_data st' i)) [0, 1, 2]
         = [[''analysed''], [''analysed''], [''analysed'']]"
proof -
  let ?ce = "\<lparr> num_experiments = 3, component_experiment = (\<lambda>i. analysis_ok) \<rparr>"
  let ?run = "composite_run_analysis (CompositeExperimentData ?ce) () three_state
     :: (py_error + composite_result analysis_results \<times> unit figures) \<times> string composite_state"
  have ok: "\<forall>i<num_experiments ?ce. raised ?ce () three_state i = None"
    by (simp add: raised_def)
  from composite_aggregate [OF ok] obtain r st' where run: "?run = (Inr (ResultList [r], NoFigures), st')"
    and len: "length (experiment_types r) = 3" "length (experiment_ids r) = 3"
      "length (experiment_qubits r) = 3"
    and entries: "\<forall>i<3. component_experiment_data st' i = analysed ?ce () three_state i
          \<and> experiment_types r ! i = experiment_type (component_experiment_data st' i)
          \<and> experiment_ids r ! i = experiment_id (component_experiment_data st' i)
          \<and> experiment_qubits r ! i = physical_qubits (component_experiment_data st' i)"
    and calls: "analysis_calls st' = analysis_calls three_state @ [0..<3]"
    by auto
  from entries have e: "component_experiment_data st' 0 = analysed ?ce () three_state 0"
    "component_experiment_data st' (Suc 0) = analysed ?ce () three_state (Suc 0)"
    "component_experiment_data st' 2 = analysed ?ce () three_state 2"
    "experiment_types r ! 0 = experiment_type (component_experiment_data st' 0)"
    "experiment_types r ! Suc 0 = experiment_type (component_experiment_data st' (Suc 0))"
    "experiment_types r ! 2 = experiment_type (component_experiment_data st' 2)"
    "experiment_ids r ! 0 = experiment_id (component_experiment_data st' 0)"
    "experiment_ids r ! Suc 0 = experiment_id (component_experiment_data st' (Suc 0))"
    "experiment_ids r ! 2 = experiment_id (component_experiment_data st' 2)"
    "experiment_qubits r ! 0 = physical_qubits (component_experiment_data st' 0)"
    "experiment_qubits r ! Suc 0 = physical_qubits (component_experiment_data st' (Suc 0))"
    "experiment_qubits r ! 2 = physical_qubits (component_experiment_data st' 2)"
    by simp_all
  have three: "xs = [xs ! 0, xs ! 1, xs ! 2]" if "length xs = 3" for xs :: "'a list"
    using that by (cases xs; cases "tl xs"; cases "tl (tl xs)") (auto simp: numeral_3_eq_3 numeral_2_eq_2)
  have "experiment_types r = [''A'', ''B'', ''C'']"
    by (subst three[OF len(1)]) (simp add: e analysed_def)
  moreover have "experiment_ids r = [''id1'', ''id2'', ''id3'']"
    by (subst three[OF len(2)]) (simp add: e analysed_def)
  moreover have "experiment_qubits r = [[0], [1], [2, 3]]"
    by (subst three[OF len(3)]) (simp add: e analysed_def)
  ultimately have rv: "r = \<lparr> experiment_types = [''A'', ''B'', ''C''],
                           experiment_ids = [''id1'', ''id2'', ''id3''],
                           experiment_qubits = [[0], [1], [2, 3]] \<rparr>"
    by simp
  have c: "analysis_calls st' = [0, 1, 2]"
    using calls by (simp add: upt_3)
  have sr: "map (\<lambda>i. stored_results (component_experiment_data st' i)) [0, 1, 2]
         = [[''analysed''], [''analysed''], [''analysed'']]"
    by (simp add: e analysed_def)
  have "?run = (Inr (ResultList [\<lparr> experiment_types = [''A'', ''B'', ''C''],
                           experiment_ids = [''id1'', ''id2'', ''id3''],
                           experiment_qubits = [[0], [1], [2, 3]] \<rparr>], NoFigures), st')"
    by (simp only: run rv)
  with c sr show ?thesis
    by (intro exI[of _ st'] conjI)
qed

lemma three_run:
  "\<exists>st'. (composite_run_analysis
       (CompositeExperimentData \<lparr> num_experiments = 3, component_experiment = (\<lambda>i. analysis_ok) \<rparr>)
       () three_state :: (py_error + composite_result analysis_results \<times> unit figures) \<times> string composite_state)
     = (Inr (ResultList [\<lparr> experiment_types = [''A'', ''B'', ''C''],
                           experiment_ids = [''id1'', ''id2'', ''id3''],
                           experiment_qubits = [[0], [1], [2, 3]] \<rparr>], NoFigures), st')"
  by (simp add: composite_run_analysis_def upt_3 component_loop_step analysed_def raised_def Let_def)

text \<open>
  Claim C7 as stated fails: the value returned for the three sub-experiments is a list.
\<close>

theorem composite_single_record_counterexample:
  "fst (composite_run_analysis
       (CompositeExperimentData \<lparr> num_experiments = 3, component_experiment = (\<lambda>i. analysis_ok) \<rparr>)
       () three_state :: (py_error + composite_result analysis_results \<times> unit figures) \<times> string composite_state)
     = Inr (ResultList [\<lparr> experiment_types = [''A'', ''B'', ''C''],
                          experiment_ids = [''id1'', ''id2'', ''id3''],
                          experiment_qubits = [[0], [1], [2, 3]] \<rparr>], NoFigures)"
  using three_run by auto

text \<open>
  The list returned for the three sub-experiments has one record, and there are no figures.
\<close>

theorem composite_returns_singleton_list_witness:
  "\<exists>st'. (composite_run_analysis
       (CompositeExperimentData \<lparr> num_experiments = 3, component_experiment = (\<lambda>i. analysis_ok) \<rparr>)
       () three_state :: (py_error + composite_result analysis_results \<times> unit figures) \<times> string composite_state)
     = (Inr (ResultList [\<lparr> experiment_types = [''A'', ''B'', ''C''],
                           experiment_ids = [''id1'', ''id2'', ''id3''],
                           experiment_qubits = [[0], [1], [2, 3]] \<rparr>], NoFigures), st')"
proof -
  from three_run obtain st' where run: "(composite_run_analysis
       (CompositeExperimentData \<lparr> num_experiments = 3, component_experiment = (\<lambda>i. analysis_ok) \<rparr>)
       () three_state :: (py_error + composite_result analysis_results \<times> unit figures) \<times> string composite_state)
     = (Inr (ResultList [\<lparr> experiment_types = [''A'', ''B'', ''C''],
                           experiment_ids = [''id1'', ''id2'', ''id3''],
                           experiment_qubits = [[0], [1], [2, 3]] \<rparr>], NoFigures), st')"
    by blast
  from composite_returns_singleton_list [OF run] run show ?thesis
    by blast
qed

text \<open>
  The second of three analyses raises: the third one is never invoked.
\<close>

theorem child_failure_aborts_witness:
  "\<exists>st'. (composite_run_analysis
       (CompositeExperimentData \<lparr> num_experiments = 3,
          component_experiment = (\<lambda>i. if i = 1 then analysis_failing else analysis_ok) \<rparr>)
       () three_state :: (py_error + composite_result analysis_results \<times> unit figures) \<times> string composite_state)
     = (Inl (OtherError ''analysis failed''), st')
     \<and> analysis_calls st' = [0, 1]
     \<and> component_experiment_data st' 2 = three_children 2"
proof -
  let ?ce = "\<lparr> num_experiments = 3,
          component_experiment = (\<lambda>i. if i = 1 then analysis_failing else analysis_ok) \<rparr>"
  have i: "1 < num_experiments ?ce" by simp
  have pre: "\<forall>j<1. raised ?ce () three_state j = None"
    by (simp add: raised_def)
  have fails: "raised ?ce () three_state 1 = Some (OtherError ''analysis failed'')"
    by (simp add: raised_def)
  from child_failure_aborts [OF i pre fails]
  obtain st' where st': "(composite_run_analysis (CompositeExperimentData ?ce) () three_state
        :: (py_error + composite_result analysis_results \<times> unit figures) \<times> string composite_state)
      = (Inl (OtherError ''analysis failed''), st')"
    "analysis_calls st' = analysis_calls three_state @ [0..<Suc 1]"
    "\<forall>j. 1 < j \<longrightarrow> component_experiment_data st' j = component_experiment_data three_state j"
    by blast
  from st'(2) have "analysis_calls st' = [0, 1]"
    by (simp add: upt_rec)
  moreover from st'(3) have "component_experiment_data st' 2 = three_children 2"
    by simp
  ultimately show ?thesis using st'(1)
    by (intro exI[of _ st'] conjI)
qed

end
